theory Spec2Isabelle
  imports Main "HOL-Library.Sublist"
begin

section \<open>The Python runtime the scripts run on\<close>

text \<open>
  The four scripts are glue around third-party code (chromadb, FastAPI, uvicorn, pip).
  The embedding keeps the scripts' own control flow (every \<open>try\<close>, \<open>except\<close>, \<open>if\<close>,
  \<open>print\<close>, \<open>return\<close> and \<open>sys.exit\<close>) and makes the rest explicit:
  \<^item> an exception is a value of type \<open>exn\<close>, a statement either returns or raises;
  \<^item> the process state (standard output, log records, \<open>os.environ\<close>, the file system,
    the external calls made so far) is threaded through every statement;
  \<^item> third-party code is a parameter, the \<open>world\<close>: it decides, from the calls made so
    far, whether an import or a call succeeds and what it returns.
\<close>

subsection \<open>Exceptions\<close>

datatype os_error = ENOENT | EEXIST | ENOTDIR

text \<open>
  \<open>OtherException\<close> stands for every subclass of \<open>Exception\<close> that no handler of the
  scripts names. \<open>KeyboardInterrupt\<close> and \<open>SystemExit\<close> derive from \<open>BaseException\<close>
  only, so \<open>except Exception\<close> does not catch them.
\<close>

datatype exn =
    ImportError string
  | OSError os_error string
  | CalledProcessError string
  | OtherException string
  | KeyboardInterrupt
  | SystemExit int

fun is_ImportError :: "exn \<Rightarrow> bool" where
  "is_ImportError (ImportError m) = True"
| "is_ImportError e = False"

fun is_CalledProcessError :: "exn \<Rightarrow> bool" where
  "is_CalledProcessError (CalledProcessError m) = True"
| "is_CalledProcessError e = False"

fun is_KeyboardInterrupt :: "exn \<Rightarrow> bool" where
  "is_KeyboardInterrupt KeyboardInterrupt = True"
| "is_KeyboardInterrupt e = False"

fun is_Exception :: "exn \<Rightarrow> bool" where
  "is_Exception KeyboardInterrupt = False"
| "is_Exception (SystemExit n) = False"
| "is_Exception e = True"

fun strerror :: "os_error \<Rightarrow> string" where
  "strerror ENOENT = ''[Errno 2] No such file or directory''"
| "strerror EEXIST = ''[Errno 17] File exists''"
| "strerror ENOTDIR = ''[Errno 20] Not a directory''"

subsection \<open>Strings\<close>

definition ascii_lowercase :: string where
  "ascii_lowercase = ''abcdefghijklmnopqrstuvwxyz''"

definition ascii_uppercase :: string where
  "ascii_uppercase = ''ABCDEFGHIJKLMNOPQRSTUVWXYZ''"

definition upper_char :: "char \<Rightarrow> char" where
  "upper_char c =
     (case map_of (zip ascii_lowercase ascii_uppercase) c of None \<Rightarrow> c | Some u \<Rightarrow> u)"

definition lower_char :: "char \<Rightarrow> char" where
  "lower_char c =
     (case map_of (zip ascii_uppercase ascii_lowercase) c of None \<Rightarrow> c | Some l \<Rightarrow> l)"

text \<open>A string of ASCII characters only: no byte has its high bit set.\<close>

definition is_ascii :: "string \<Rightarrow> bool" where
  "is_ascii s = list_all (\<lambda>c. \<not> digit7 c) s"

definition startswith :: "string \<Rightarrow> string \<Rightarrow> bool" where
  "startswith s p = (take (length p) s = p)"

definition digit_char :: "nat \<Rightarrow> char" where
  "digit_char d = ''0123456789'' ! d"

fun str_nat :: "nat \<Rightarrow> string" where
  "str_nat n = (if n < 10 then [digit_char n] else str_nat (n div 10) @ [digit_char (n mod 10)])"

declare str_nat.simps [simp del]

text \<open>\<open>str(n)\<close> of an integer, as an f-string prints it.\<close>

definition str_int :: "int \<Rightarrow> string" where
  "str_int i = (if i < 0 then CHR ''-'' # str_nat (nat (- i)) else str_nat (nat i))"

text \<open>The non-ASCII symbols of the scripts' messages, as their UTF-8 bytes.\<close>

definition sym_check :: string where
  "sym_check = [CHR 0xE2, CHR 0x9C, CHR 0x85]"

definition sym_cross :: string where
  "sym_cross = [CHR 0xE2, CHR 0x9D, CHR 0x8C]"

definition sym_globe :: string where
  "sym_globe = [CHR 0xF0, CHR 0x9F, CHR 0x8C, CHR 0x90]"

definition sym_bulb :: string where
  "sym_bulb = [CHR 0xF0, CHR 0x9F, CHR 0x92, CHR 0xA1]"

definition sym_disk :: string where
  "sym_disk = [CHR 0xF0, CHR 0x9F, CHR 0x92, CHR 0xBE]"

definition sym_folder :: string where
  "sym_folder = [CHR 0xF0, CHR 0x9F, CHR 0x93, CHR 0x81]"

definition sym_pin :: string where
  "sym_pin = [CHR 0xF0, CHR 0x9F, CHR 0x93, CHR 0x8D]"

definition sym_package :: string where
  "sym_package = [CHR 0xF0, CHR 0x9F, CHR 0x93, CHR 0xA6]"

definition sym_plug :: string where
  "sym_plug = [CHR 0xF0, CHR 0x9F, CHR 0x94, CHR 0x8C]"

definition sym_wrench :: string where
  "sym_wrench = [CHR 0xF0, CHR 0x9F, CHR 0x94, CHR 0xA7]"

definition sym_rocket :: string where
  "sym_rocket = [CHR 0xF0, CHR 0x9F, CHR 0x9A, CHR 0x80]"

definition sym_stop :: string where
  "sym_stop = [CHR 0xF0, CHR 0x9F, CHR 0x9B, CHR 0x91]"

subsection \<open>External calls and the world\<close>

text \<open>
  What the scripts hand to third-party code. Each constructor is one call site of the
  sources, with the arguments the script passes.
\<close>

datatype json =
    JNull
  | JStr string
  | JInt int
  | JList "json list"
  | JDict "(string \<times> json) list"

text \<open>The keyword arguments of \<open>Settings(...)\<close>, in the order the script writes them.\<close>

datatype settings = Settings string string string int bool

datatype client = Client "settings option" | PersistentClient string

datatype endpoint = Heartbeat | List_collections | Create_collection | Get_collection

datatype http_method = GET | POST

text \<open>The first argument of \<open>uvicorn.run\<close>.\<close>

datatype asgi_app =
    Chromadb_app
  | Import_string string
  | Simple_server_app

datatype call =
    Import string
  | Run_server string int "(string \<times> string) list"
  | Uvicorn_run asgi_app string int string
  | Check_call "string list"
  | Settings_init settings
  | Client_init "settings option"
  | PersistentClient_init string
  | FastAPI_init string
  | Add_middleware "string list" bool "string list" "string list"
  | Route http_method string endpoint
  | Client_list_collections client
  | Client_create_collection client json json
  | Client_get_collection client string

record collection =
  c_name :: string
  c_id :: string

text \<open>
  The world answers from the calls made so far (oldest first), so the same import or
  call may succeed at one point of a run and fail at another.
  \<^item> \<open>import_error h m = Some msg\<close>: importing module \<open>m\<close> raises \<open>ImportError(msg)\<close>;
    an import statement of a third-party module either binds the module or raises
    \<open>ImportError\<close>. Modules of the standard library always import.
  \<^item> \<open>raises h c = Some e\<close>: the call \<open>c\<close> raises \<open>e\<close>; \<open>None\<close>: it returns.
  \<^item> \<open>fastapi_app_error h = Some msg\<close>: the module \<open>chromadb.server.fastapi\<close> has no
    attribute \<open>app\<close>, and reading it raises \<open>AttributeError(msg)\<close>.
  \<^item> \<open>str_upper\<close> and \<open>str_lower\<close> are \<open>str.upper()\<close> and \<open>str.lower()\<close> on strings
    with non-ASCII characters (the interpreter's Unicode tables); \<open>py_int\<close> is \<open>int()\<close>
    on a string; \<open>logging_error name\<close> is the message of the exception that
    \<open>logging\<close> raises for a name that is none of its levels.
\<close>

record world =
  import_error :: "call list \<Rightarrow> string \<Rightarrow> string option"
  raises :: "call list \<Rightarrow> call \<Rightarrow> exn option"
  chromadb_version :: string
  chromadb_has_run_server :: bool
  chromadb_dir :: "string list"
  collections_listed :: "call list \<Rightarrow> collection list"
  collection_returned :: "call list \<Rightarrow> collection"
  time_ns :: "call list \<Rightarrow> int"
  sys_executable :: string
  pw_dir :: "string option"
  py_int :: "string \<Rightarrow> int option"
  str_upper :: "string \<Rightarrow> string"
  str_lower :: "string \<Rightarrow> string"
  logging_error :: "string \<Rightarrow> string"
  fastapi_app_error :: "call list \<Rightarrow> string option"

text \<open>
  \<open>str.upper()\<close> and \<open>str.lower()\<close>. In an ASCII string they change the letters a to z
  and A to Z and nothing else; any other string is converted by the interpreter.
\<close>

definition upper :: "world \<Rightarrow> string \<Rightarrow> string" where
  "upper w s = (if is_ascii s then map upper_char s else str_upper w s)"

definition lower :: "world \<Rightarrow> string \<Rightarrow> string" where
  "lower w s = (if is_ascii s then map lower_char s else str_lower w s)"

subsection \<open>Process state\<close>

text \<open>
  The file system is a tree from the root directory; a directory maps names to entries.
  It records what the scripts themselves do to it. Permissions and symbolic links are
  outside the model.
\<close>

datatype tree = File | Dir "string \<Rightarrow> tree option"

text \<open>A \<open>pathlib\<close> path, as its \<open>parts\<close>: the root first when the path is absolute.\<close>

type_synonym path = "string list"

datatype level = INFO | ERROR

record proc =
  stdout :: "string list"
  log :: "(level \<times> string) list"
  environ :: "string \<Rightarrow> string option"
  fs :: tree
  cwd :: "string list"
  trace :: "call list"
  root_level :: "int option"

datatype 'a result = Return 'a | Raise exn

type_synonym 'a prog = "proc \<Rightarrow> 'a result \<times> proc"

definition return_p :: "'a \<Rightarrow> 'a prog" where
  "return_p v s = (Return v, s)"

definition raise_p :: "exn \<Rightarrow> 'a prog" where
  "raise_p e s = (Raise e, s)"

definition bind_p :: "'a prog \<Rightarrow> ('a \<Rightarrow> 'b prog) \<Rightarrow> 'b prog" where
  "bind_p m f s = (case m s of (Return v, s') \<Rightarrow> f v s' | (Raise e, s') \<Rightarrow> (Raise e, s'))"

text \<open>A block of statements, run in order; the first that raises ends the block.\<close>

fun seq_p :: "unit prog list \<Rightarrow> unit prog" where
  "seq_p [] = return_p ()"
| "seq_p (m # ms) = bind_p m (\<lambda>_. seq_p ms)"

text \<open>
  \<open>try: body except C1 as e: h1 except C2 as e: h2\<close>. The first clause whose class
  matches handles the exception; with none, it propagates. An exception raised by a
  handler propagates too.
\<close>

fun handle_exn :: "((exn \<Rightarrow> bool) \<times> (exn \<Rightarrow> 'a prog)) list \<Rightarrow> exn \<Rightarrow> 'a prog" where
  "handle_exn [] e = raise_p e"
| "handle_exn ((c, h) # hs) e = (if c e then h e else handle_exn hs e)"

definition try_except :: "'a prog \<Rightarrow> ((exn \<Rightarrow> bool) \<times> (exn \<Rightarrow> 'a prog)) list \<Rightarrow> 'a prog" where
  "try_except body hs s =
     (case body s of (Return v, s') \<Rightarrow> (Return v, s') | (Raise e, s') \<Rightarrow> handle_exn hs e s')"

definition print_p :: "string \<Rightarrow> unit prog" where
  "print_p line s = (Return (), s\<lparr>stdout := stdout s @ [line]\<rparr>)"

definition logger_info :: "string \<Rightarrow> unit prog" where
  "logger_info msg s = (Return (), s\<lparr>log := log s @ [(INFO, msg)]\<rparr>)"

definition logger_error :: "string \<Rightarrow> unit prog" where
  "logger_error msg s = (Return (), s\<lparr>log := log s @ [(ERROR, msg)]\<rparr>)"

definition sys_exit :: "int \<Rightarrow> 'a prog" where
  "sys_exit n = raise_p (SystemExit n)"

definition setenv :: "string \<Rightarrow> string \<Rightarrow> unit prog" where
  "setenv k v s = (Return (), s\<lparr>environ := (environ s)(k \<mapsto> v)\<rparr>)"

definition import_p :: "world \<Rightarrow> string \<Rightarrow> unit prog" where
  "import_p w m s =
     (case import_error w (trace s) m of
        None \<Rightarrow> (Return (), s\<lparr>trace := trace s @ [Import m]\<rparr>)
      | Some msg \<Rightarrow> (Raise (ImportError msg), s\<lparr>trace := trace s @ [Import m]\<rparr>))"

definition call_p :: "world \<Rightarrow> call \<Rightarrow> unit prog" where
  "call_p w c s =
     (case raises w (trace s) c of
        None \<Rightarrow> (Return (), s\<lparr>trace := trace s @ [c]\<rparr>)
      | Some e \<Rightarrow> (Raise e, s\<lparr>trace := trace s @ [c]\<rparr>))"

text \<open>A call whose value the script uses: the world supplies it.\<close>

definition call_ret :: "world \<Rightarrow> call \<Rightarrow> (call list \<Rightarrow> 'a) \<Rightarrow> 'a prog" where
  "call_ret w c ret s =
     (case raises w (trace s) c of
        None \<Rightarrow> (Return (ret (trace s)), s\<lparr>trace := trace s @ [c]\<rparr>)
      | Some e \<Rightarrow> (Raise e, s\<lparr>trace := trace s @ [c]\<rparr>))"

text \<open>
  The status the operating system sees: 0 when the script runs to its end, the argument
  of \<open>sys.exit\<close>, and the interpreter's status for an exception nothing caught.
\<close>

fun exit_status :: "'a result \<Rightarrow> int" where
  "exit_status (Return v) = 0"
| "exit_status (Raise (SystemExit n)) = n"
| "exit_status (Raise KeyboardInterrupt) = 130"
| "exit_status (Raise e) = 1"

text \<open>What \<open>{e}\<close> prints in an f-string.\<close>

fun str_exn :: "exn \<Rightarrow> string" where
  "str_exn (ImportError m) = m"
| "str_exn (OSError err f) = strerror err @ '': '' @ [CHR 0x27] @ f @ [CHR 0x27]"
| "str_exn (CalledProcessError m) = m"
| "str_exn (OtherException m) = m"
| "str_exn KeyboardInterrupt = []"
| "str_exn (SystemExit n) = str_int n"

text \<open>The truth value of an optional string: \<open>None\<close> and \<open>''\<close> are false.\<close>

fun truthy :: "string option \<Rightarrow> bool" where
  "truthy None = False"
| "truthy (Some s) = (s \<noteq> [])"

text \<open>\<open>if data_dir:\<close> with no \<open>else\<close>: the block runs on a non-empty string.\<close>

fun when_truthy :: "string option \<Rightarrow> (string \<Rightarrow> unit prog) \<Rightarrow> unit prog" where
  "when_truthy None body = return_p ()"
| "when_truthy (Some d) body = (if d = [] then return_p () else body d)"

subsection \<open>Paths and directories\<close>

fun split_sep :: "string \<Rightarrow> string list" where
  "split_sep [] = [[]]"
| "split_sep (c # cs) =
     (if c = CHR ''/'' then [] # split_sep cs
      else (case split_sep cs of [] \<Rightarrow> [[c]] | x # xs \<Rightarrow> (c # x) # xs))"

fun join_sep :: "string list \<Rightarrow> string" where
  "join_sep [] = []"
| "join_sep [x] = x"
| "join_sep (x # y # ys) = x @ ''/'' @ join_sep (y # ys)"

text \<open>
  \<open>Path(s)\<close> on POSIX: the root is \<open>/\<close> (or \<open>//\<close> for exactly two leading slashes);
  empty components and \<open>.\<close> components are dropped.
\<close>

definition path_root :: "string \<Rightarrow> string" where
  "path_root s =
     (if take 3 s = ''///'' then ''/''
      else if take 2 s = ''//'' then ''//''
      else if take 1 s = ''/'' then ''/''
      else [])"

definition Path :: "string \<Rightarrow> path" where
  "Path s =
     (if path_root s = [] then [] else [path_root s])
       @ filter (\<lambda>x. x \<noteq> [] \<and> x \<noteq> ''.'') (split_sep s)"

text \<open>\<open>str(path)\<close>.\<close>

fun str_path :: "path \<Rightarrow> string" where
  "str_path [] = ''.''"
| "str_path (r # ns) = (if r = ''/'' \<or> r = ''//'' then r @ join_sep ns else join_sep (r # ns))"

text \<open>
  Where the resolution of a path starts, and the components to resolve: an absolute path
  starts at the root, a relative one in the working directory.
\<close>

fun start_dir :: "string list \<Rightarrow> path \<Rightarrow> string list" where
  "start_dir wd [] = wd"
| "start_dir wd (r # ns) = (if r = ''/'' \<or> r = ''//'' then [] else wd)"

fun components :: "path \<Rightarrow> string list" where
  "components [] = []"
| "components (r # ns) = (if r = ''/'' \<or> r = ''//'' then ns else r # ns)"

text \<open>\<open>Path.parent\<close>: the root and the empty path are their own parents.\<close>

fun parent :: "path \<Rightarrow> path" where
  "parent [] = []"
| "parent [r] = (if r = ''/'' \<or> r = ''//'' then [r] else [])"
| "parent (r # n # ns) = butlast (r # n # ns)"

text \<open>The entry at the names from the root directory down.\<close>

fun stat :: "tree \<Rightarrow> string list \<Rightarrow> os_error + tree" where
  "stat t [] = Inr t"
| "stat File (c # cs) = Inl ENOTDIR"
| "stat (Dir m) (c # cs) = (case m c of None \<Rightarrow> Inl ENOENT | Some t \<Rightarrow> stat t cs)"

fun is_dir :: "tree \<Rightarrow> string list \<Rightarrow> bool" where
  "is_dir t ns = (case stat t ns of Inr (Dir m) \<Rightarrow> True | Inr File \<Rightarrow> False | Inl e \<Rightarrow> False)"

fun is_file :: "tree \<Rightarrow> string list \<Rightarrow> bool" where
  "is_file t ns = (case stat t ns of Inr File \<Rightarrow> True | Inr (Dir m) \<Rightarrow> False | Inl e \<Rightarrow> False)"

text \<open>
  How the operating system resolves components from the directory \<open>cur\<close>: a name
  enters the entry of that name, \<open>..\<close> goes to the parent directory (the root is its
  own parent), and every step is taken from a directory. The result is the directory
  reached, as its names from the root.
\<close>

fun resolve :: "tree \<Rightarrow> string list \<Rightarrow> string list \<Rightarrow> os_error + string list" where
  "resolve t cur [] =
     (case stat t cur of
        Inl e \<Rightarrow> Inl e
      | Inr File \<Rightarrow> Inl ENOTDIR
      | Inr (Dir m) \<Rightarrow> Inr cur)"
| "resolve t cur (c # cs) =
     (case stat t cur of
        Inl e \<Rightarrow> Inl e
      | Inr File \<Rightarrow> Inl ENOTDIR
      | Inr (Dir m) \<Rightarrow>
          (if c = ''..'' then resolve t (butlast cur) cs else resolve t (cur @ [c]) cs))"

text \<open>\<open>Path.is_dir()\<close>.\<close>

definition path_is_dir :: "tree \<Rightarrow> string list \<Rightarrow> path \<Rightarrow> bool" where
  "path_is_dir t wd p =
     (case resolve t (start_dir wd p) (components p) of Inl e \<Rightarrow> False | Inr ns \<Rightarrow> True)"

text \<open>A new, empty directory at the names, in a directory that exists.\<close>

fun add_dir :: "tree \<Rightarrow> string list \<Rightarrow> tree" where
  "add_dir (Dir m) [c] = Dir (m(c \<mapsto> Dir Map.empty))"
| "add_dir (Dir m) (c # c' # cs) =
     (case m c of None \<Rightarrow> Dir m | Some t \<Rightarrow> Dir (m(c \<mapsto> add_dir t (c' # cs))))"
| "add_dir t ns = t"

text \<open>
  \<open>os.mkdir(path)\<close>: the path up to its last component must lead to a directory
  (\<open>FileNotFoundError\<close>, \<open>NotADirectoryError\<close>), in which the last component must be
  new (\<open>FileExistsError\<close>).
\<close>

definition os_mkdir :: "tree \<Rightarrow> string list \<Rightarrow> path \<Rightarrow> os_error + tree" where
  "os_mkdir t wd p =
     (case resolve t (start_dir wd p) (butlast (components p)) of
        Inl e \<Rightarrow> Inl e
      | Inr dir \<Rightarrow>
          if components p = [] \<or> last (components p) = ''..'' then Inl EEXIST
          else (case stat t (dir @ [last (components p)]) of
                  Inr entry \<Rightarrow> Inl EEXIST
                | Inl e \<Rightarrow> Inr (add_dir t (dir @ [last (components p)]))))"

text \<open>
  \<open>Path.mkdir(exist_ok=True)\<close>, with \<open>parents\<close> left at \<open>False\<close>, as \<open>pathlib\<close>
  writes it: \<open>os.mkdir\<close>, whose \<open>FileNotFoundError\<close> is raised again, and whose other
  errors are raised again unless the path is a directory. An error comes with the path
  it was raised for.
\<close>

definition mkdir_exist_ok :: "tree \<Rightarrow> string list \<Rightarrow> path \<Rightarrow> (os_error \<times> path) + tree" where
  "mkdir_exist_ok t wd p =
     (case os_mkdir t wd p of
        Inr t' \<Rightarrow> Inr t'
      | Inl e \<Rightarrow>
          if e = ENOENT then Inl (e, p)
          else if path_is_dir t wd p then Inr t
          else Inl (e, p))"

text \<open>
  \<open>Path.mkdir(parents=True, exist_ok=True)\<close>, as \<open>pathlib\<close> writes it: on
  \<open>FileNotFoundError\<close> the parent is made in the same way, and then the path itself
  with \<open>parents=False\<close>.
\<close>

function makedirs :: "tree \<Rightarrow> string list \<Rightarrow> path \<Rightarrow> (os_error \<times> path) + tree" where
  "makedirs t wd p =
     (case os_mkdir t wd p of
        Inr t' \<Rightarrow> Inr t'
      | Inl e \<Rightarrow>
          if e = ENOENT then
            (if parent p = p then Inl (e, p)
             else (case makedirs t wd (parent p) of
                     Inl err \<Rightarrow> Inl err
                   | Inr t' \<Rightarrow> mkdir_exist_ok t' wd p))
          else if path_is_dir t wd p then Inr t
          else Inl (e, p))"
  by pat_completeness auto

termination makedirs
proof (relation "measure (\<lambda>(t, wd, p). length p)")
  show "wf (measure (\<lambda>(t, wd, p). length p))" by simp
next
  fix t :: tree and wd p :: "string list" and e :: os_error
  assume "parent p \<noteq> p"
  then have "length (parent p) < length p"
    by (cases p rule: parent.cases) (simp_all split: if_splits)
  then show "((t, wd, parent p), (t, wd, p)) \<in> measure (\<lambda>(t, wd, p). length p)"
    by simp
qed

declare makedirs.simps [simp del]

text \<open>\<open>path.mkdir(parents=..., exist_ok=True)\<close> as a statement of a script.\<close>

definition mkdir_p :: "bool \<Rightarrow> path \<Rightarrow> unit prog" where
  "mkdir_p parents p s =
     (case (if parents then makedirs (fs s) (cwd s) p else mkdir_exist_ok (fs s) (cwd s) p) of
        Inl err \<Rightarrow> (Raise (OSError (fst err) (str_path (snd err))), s)
      | Inr t \<Rightarrow> (Return (), s\<lparr>fs := t\<rparr>))"

text \<open>
  \<open>os.path.expanduser\<close> on a path that starts with \<open>~/\<close> (the only form the scripts
  use): the home directory is \<open>$HOME\<close>, else the password database's entry; with
  neither, the path is returned as it is.
\<close>

definition rstrip_sep :: "string \<Rightarrow> string" where
  "rstrip_sep s = rev (dropWhile (\<lambda>c. c = CHR ''/'') (rev s))"

definition expanduser_str :: "world \<Rightarrow> (string \<Rightarrow> string option) \<Rightarrow> string \<Rightarrow> string" where
  "expanduser_str w env p =
     (if take 2 p = ''~/'' then
        (case (case env ''HOME'' of Some h \<Rightarrow> Some h | None \<Rightarrow> pw_dir w) of
           None \<Rightarrow> p
         | Some userhome \<Rightarrow> rstrip_sep userhome @ drop 1 p)
      else p)"

definition expanduser :: "world \<Rightarrow> string \<Rightarrow> string prog" where
  "expanduser w p s = (Return (expanduser_str w (environ s) p), s)"

text \<open>\<open>os.path.join(a, b)\<close>.\<close>

definition path_join :: "string \<Rightarrow> string \<Rightarrow> string" where
  "path_join a b =
     (if take 1 b = ''/'' then b
      else if a = [] \<or> last a = CHR ''/'' then a @ b
      else a @ ''/'' @ b)"

subsection \<open>Command lines\<close>

text \<open>
  \<open>argparse\<close> first splits the command line into the options it recognises, each with
  its argument, and the rest; the scripts only declare the options. A command line is
  modelled after that split: \<open>Option k v\<close> is the declared option string \<open>k\<close> given
  with argument \<open>v\<close>, \<open>Help\<close> is \<open>-h\<close> or \<open>--help\<close>, \<open>Unrecognized\<close> anything else.
  What \<open>argparse\<close> then does with a declared option (convert with \<open>type\<close>, check
  \<open>choices\<close>, store, the last occurrence winning) and how it ends (exit status 2 on an
  error, 0 after the help text) is written out. Its usage and help texts are not
  recorded.
\<close>

datatype cli_item = Option string string | Help | Unrecognized string

section \<open>start-chromadb-server.py\<close>

record args =
  args_host :: string
  args_port :: int
  args_data_dir :: "string option"
  args_log_level :: string

text \<open>\<open>logging\<close>'s level names: \<open>getattr(logging, name)\<close> for a name that is a level.\<close>

definition logging_level :: "string \<Rightarrow> int option" where
  "logging_level name =
     (if name = ''CRITICAL'' \<or> name = ''FATAL'' then Some 50
      else if name = ''ERROR'' then Some 40
      else if name = ''WARNING'' \<or> name = ''WARN'' then Some 30
      else if name = ''INFO'' then Some 20
      else if name = ''DEBUG'' then Some 10
      else if name = ''NOTSET'' then Some 0
      else None)"

text \<open>
  \<open>logging.basicConfig(level=getattr(logging, name), format=...)\<close>. A name that is no
  level raises: \<open>AttributeError\<close> when the module has no such attribute, \<open>ValueError\<close>
  or \<open>TypeError\<close> when it has one that is no level (\<open>BASIC_FORMAT\<close>); in every case a
  subclass of \<open>Exception\<close>, with the message the library gives it.
\<close>

definition logging_basicConfig :: "world \<Rightarrow> string \<Rightarrow> unit prog" where
  "logging_basicConfig w name s =
     (case logging_level name of
        Some n \<Rightarrow> (Return (), s\<lparr>root_level := Some n\<rparr>)
      | None \<Rightarrow> (Raise (OtherException (logging_error w name)), s))"

text \<open>\<open>data_dir or 'default'\<close>.\<close>

fun or_default :: "string option \<Rightarrow> string" where
  "or_default None = ''default''"
| "or_default (Some d) = (if d = [] then ''default'' else d)"

text \<open>
  Lines 32 to 37 of \<open>start_chromadb_server\<close>: \<open>settings = {}\<close> and the \<open>if data_dir:\<close>
  block; the value is the \<open>settings\<close> dictionary.
\<close>

fun configure_data_dir :: "string option \<Rightarrow> (string \<times> string) list prog" where
  "configure_data_dir None = return_p []"
| "configure_data_dir (Some d) =
     (if d = [] then return_p []
      else bind_p
             (seq_p
                [mkdir_p True (Path d),
                 print_p (sym_check @ '' Data directory created: '' @ str_path (Path d))])
             (\<lambda>_. return_p [(''persist_directory'', str_path (Path d))]))"

text \<open>
  Lines 39 to 54 of \<open>start_chromadb_server\<close>: the \<open>if hasattr(chromadb, 'run_server')\<close>
  statement, which starts the server.
\<close>

definition start_the_server ::
    "world \<Rightarrow> string \<Rightarrow> int \<Rightarrow> string option \<Rightarrow> string \<Rightarrow> (string \<times> string) list \<Rightarrow> unit prog" where
  "start_the_server w host port data_dir log_level settings =
     (if chromadb_has_run_server w
      then call_p w (Run_server host port settings)
      else seq_p
             [import_p w ''chromadb.server.fastapi'',
              import_p w ''uvicorn'',
              when_truthy data_dir (\<lambda>d.
                seq_p
                  [setenv ''CHROMA_DB_IMPL'' ''duckdb+parquet'',
                   setenv ''CHROMA_PERSIST_DIRECTORY'' d]),
              print_p (sym_globe @ '' Starting server on http://'' @ host @ '':'' @ str_int port),
              call_p w (Uvicorn_run Chromadb_app host port (lower w log_level))])"

definition start_chromadb_server ::
    "world \<Rightarrow> string \<Rightarrow> int \<Rightarrow> string option \<Rightarrow> string \<Rightarrow> unit prog" where
  "start_chromadb_server w host port data_dir log_level =
     seq_p
       [logging_basicConfig w (upper w log_level),
        try_except
          (seq_p
             [import_p w ''chromadb'',
              import_p w ''chromadb.config'',
              print_p (sym_rocket @ '' Starting ChromaDB server v'' @ chromadb_version w),
              print_p (sym_pin @ '' Host: '' @ host),
              print_p (sym_plug @ '' Port: '' @ str_int port),
              print_p (sym_disk @ '' Data directory: '' @ or_default data_dir),
              bind_p (configure_data_dir data_dir)
                (start_the_server w host port data_dir log_level)])
          [(is_ImportError, \<lambda>e.
              seq_p
                [print_p (sym_cross @ '' ChromaDB not available: '' @ str_exn e),
                 print_p (sym_bulb @ '' Install with: pip install chromadb''),
                 sys_exit 1]),
           (is_Exception, \<lambda>e.
              seq_p
                [print_p (sym_cross @ '' Server startup failed: '' @ str_exn e),
                 sys_exit 1])]]"

text \<open>The four \<open>add_argument\<close> declarations of \<open>main\<close>, applied to a command line.\<close>

fun parse_args :: "world \<Rightarrow> cli_item list \<Rightarrow> bool \<Rightarrow> args \<Rightarrow> args prog" where
  "parse_args w [] unrecognized a = (if unrecognized then sys_exit 2 else return_p a)"
| "parse_args w (Help # rest) unrecognized a = sys_exit 0"
| "parse_args w (Unrecognized x # rest) unrecognized a = parse_args w rest True a"
| "parse_args w (Option k v # rest) unrecognized a =
     (if k = ''--host'' then parse_args w rest unrecognized (a\<lparr>args_host := v\<rparr>)
      else if k = ''--port'' then
        (case py_int w v of
           None \<Rightarrow> sys_exit 2
         | Some n \<Rightarrow> parse_args w rest unrecognized (a\<lparr>args_port := n\<rparr>))
      else if k = ''--data-dir'' then
        parse_args w rest unrecognized (a\<lparr>args_data_dir := Some v\<rparr>)
      else if k = ''--log-level'' then
        (if v \<in> set [''DEBUG'', ''INFO'', ''WARNING'', ''ERROR'']
         then parse_args w rest unrecognized (a\<lparr>args_log_level := v\<rparr>)
         else sys_exit 2)
      else parse_args w rest True a)"

text \<open>\<open>parser.parse_args()\<close>, from the declared defaults.\<close>

definition parser :: "world \<Rightarrow> cli_item list \<Rightarrow> args prog" where
  "parser w argv =
     parse_args w argv False
       \<lparr>args_host = ''0.0.0.0'', args_port = 8000, args_data_dir = None,
        args_log_level = ''INFO''\<rparr>"

definition main :: "world \<Rightarrow> cli_item list \<Rightarrow> unit prog" where
  "main w argv =
     bind_p (parser w argv)
       (\<lambda>args.
          seq_p
            [print_p (sym_wrench @ '' ChromaDB Server for Forest Integration''),
             print_p (replicate 50 (CHR ''='')),
             try_except
               (start_chromadb_server w (args_host args) (args_port args)
                  (args_data_dir args) (args_log_level args))
               [(is_KeyboardInterrupt, \<lambda>e.
                   print_p ([CHR 0x0A] @ sym_stop @ '' Server stopped by user'')),
                (is_Exception, \<lambda>e.
                   seq_p
                     [print_p ([CHR 0x0A] @ sym_cross @ '' Unexpected error: '' @ str_exn e),
                      sys_exit 1])]])"

section \<open>chromadb-simple-server.py\<close>

record simple_args =
  simple_host :: string
  simple_port :: int
  simple_data_dir :: "string option"

text \<open>
  The four route functions, closed over \<open>client\<close>. \<open>int(time.time() * 1e9)\<close> is
  floating-point arithmetic on the clock: the world supplies the integer.
\<close>

definition heartbeat :: "world \<Rightarrow> json prog" where
  "heartbeat w s = (Return (JDict [(''nanosecond heartbeat'', JInt (time_ns w (trace s)))]), s)"

definition list_collections :: "world \<Rightarrow> client \<Rightarrow> json prog" where
  "list_collections w client =
     bind_p (call_ret w (Client_list_collections client) (collections_listed w)) (\<lambda>collections.
       return_p
         (JList (map (\<lambda>c. JDict [(''name'', JStr (c_name c)), (''id'', JStr (c_id c))])
            collections)))"

text \<open>\<open>request.get(key, default)\<close> on the request dictionary.\<close>

definition dict_get :: "(string \<times> json) list \<Rightarrow> string \<Rightarrow> json \<Rightarrow> json" where
  "dict_get d k dflt = (case map_of d k of None \<Rightarrow> dflt | Some v \<Rightarrow> v)"

definition create_collection :: "world \<Rightarrow> client \<Rightarrow> (string \<times> json) list \<Rightarrow> json prog" where
  "create_collection w client request =
     bind_p
       (call_ret w
          (Client_create_collection client (dict_get request ''name'' JNull)
             (dict_get request ''metadata'' (JDict [])))
          (collection_returned w))
       (\<lambda>collection.
          return_p (JDict [(''name'', JStr (c_name collection)), (''id'', JStr (c_id collection))]))"

definition get_collection :: "world \<Rightarrow> client \<Rightarrow> string \<Rightarrow> json prog" where
  "get_collection w client collection_name =
     bind_p (call_ret w (Client_get_collection client collection_name) (collection_returned w))
       (\<lambda>collection.
          return_p (JDict [(''name'', JStr (c_name collection)), (''id'', JStr (c_id collection))]))"

text \<open>
  Lines 50 to 53: the client the routes use. The model keeps which constructor made it.
\<close>

fun make_client :: "world \<Rightarrow> string option \<Rightarrow> client prog" where
  "make_client w None = bind_p (call_p w (Client_init None)) (\<lambda>_. return_p (Client None))"
| "make_client w (Some d) =
     (if d = [] then bind_p (call_p w (Client_init None)) (\<lambda>_. return_p (Client None))
      else bind_p (call_p w (PersistentClient_init d)) (\<lambda>_. return_p (PersistentClient d)))"

text \<open>
  The function each decorator registers: what the server runs for a request to the
  endpoint, with the request body and the path parameter.
\<close>

fun route_function ::
    "world \<Rightarrow> client \<Rightarrow> endpoint \<Rightarrow> (string \<times> json) list \<Rightarrow> string \<Rightarrow> json prog" where
  "route_function w client Heartbeat request collection_name = heartbeat w"
| "route_function w client List_collections request collection_name = list_collections w client"
| "route_function w client Create_collection request collection_name =
     create_collection w client request"
| "route_function w client Get_collection request collection_name =
     get_collection w client collection_name"

text \<open>
  \<open>None\<close> is the function running to its end without a \<open>return\<close>; \<open>Some False\<close> is
  \<open>return False\<close>.
\<close>

text \<open>
  Lines 30 to 84 of \<open>start_simple_server\<close>: the announcement and the inner \<open>try\<close>
  statement, which builds the application and serves it.
\<close>

definition serve_simple_app :: "world \<Rightarrow> string \<Rightarrow> int \<Rightarrow> string option \<Rightarrow> bool option prog" where
  "serve_simple_app w host port data_dir =
     bind_p (print_p (sym_globe @ '' Starting server on http://'' @ host @ '':'' @ str_int port))
       (\<lambda>_.
          try_except
            (bind_p
               (seq_p
                  [import_p w ''fastapi'',
                   import_p w ''fastapi.middleware.cors'',
                   import_p w ''uvicorn'',
                   call_p w (FastAPI_init ''ChromaDB Simple Server''),
                   call_p w (Add_middleware [''*''] True [''*''] [''*'']),
                   bind_p (make_client w data_dir) (\<lambda>client. return_p ()),
                   call_p w (Route GET ''/api/v1/heartbeat'' Heartbeat),
                   call_p w (Route GET ''/api/v1/collections'' List_collections),
                   call_p w (Route POST ''/api/v1/collections'' Create_collection),
                   call_p w (Route GET ''/api/v1/collections/{collection_name}'' Get_collection),
                   print_p (sym_check @ '' Simple FastAPI server configured''),
                   call_p w (Uvicorn_run Simple_server_app host port ''info'')])
               (\<lambda>_. return_p None))
            [(is_ImportError, \<lambda>e.
                bind_p
                  (seq_p
                     [print_p (sym_cross @ '' FastAPI or uvicorn not available''),
                      print_p (sym_bulb @ '' Install with: pip install fastapi uvicorn'')])
                  (\<lambda>_. return_p (Some False)))])"

definition start_simple_server ::
    "world \<Rightarrow> string \<Rightarrow> int \<Rightarrow> string option \<Rightarrow> bool option prog" where
  "start_simple_server w host port data_dir =
     try_except
       (bind_p
          (seq_p
             [import_p w ''chromadb'',
              print_p (sym_rocket @ '' ChromaDB v'' @ chromadb_version w),
              when_truthy data_dir (\<lambda>d.
                seq_p
                  [mkdir_p True (Path d),
                   print_p (sym_folder @ '' Data directory: '' @ str_path (Path d)),
                   setenv ''CHROMA_DB_IMPL'' ''duckdb+parquet'',
                   setenv ''CHROMA_PERSIST_DIRECTORY'' (str_path (Path d))])])
          (\<lambda>_. serve_simple_app w host port data_dir))
       [(is_ImportError, \<lambda>e.
           bind_p
             (seq_p
                [print_p (sym_cross @ '' ChromaDB not available''),
                 print_p (sym_bulb @ '' Install with: pip install chromadb'')])
             (\<lambda>_. return_p (Some False))),
        (is_Exception, \<lambda>e.
           bind_p (print_p (sym_cross @ '' Server error: '' @ str_exn e))
             (\<lambda>_. return_p (Some False)))]"

text \<open>The three \<open>add_argument\<close> declarations of \<open>main\<close>, applied to a command line.\<close>

fun simple_parse_args ::
    "world \<Rightarrow> cli_item list \<Rightarrow> bool \<Rightarrow> simple_args \<Rightarrow> simple_args prog" where
  "simple_parse_args w [] unrecognized a = (if unrecognized then sys_exit 2 else return_p a)"
| "simple_parse_args w (Help # rest) unrecognized a = sys_exit 0"
| "simple_parse_args w (Unrecognized x # rest) unrecognized a = simple_parse_args w rest True a"
| "simple_parse_args w (Option k v # rest) unrecognized a =
     (if k = ''--host'' then simple_parse_args w rest unrecognized (a\<lparr>simple_host := v\<rparr>)
      else if k = ''--port'' then
        (case py_int w v of
           None \<Rightarrow> sys_exit 2
         | Some n \<Rightarrow> simple_parse_args w rest unrecognized (a\<lparr>simple_port := n\<rparr>))
      else if k = ''--data-dir'' then
        simple_parse_args w rest unrecognized (a\<lparr>simple_data_dir := Some v\<rparr>)
      else simple_parse_args w rest True a)"

definition simple_parser :: "world \<Rightarrow> cli_item list \<Rightarrow> simple_args prog" where
  "simple_parser w argv =
     simple_parse_args w argv False
       \<lparr>simple_host = ''0.0.0.0'', simple_port = 8000, simple_data_dir = None\<rparr>"

definition simple_main :: "world \<Rightarrow> cli_item list \<Rightarrow> unit prog" where
  "simple_main w argv =
     bind_p (simple_parser w argv)
       (\<lambda>args.
          try_except
            (bind_p
               (start_simple_server w (simple_host args) (simple_port args) (simple_data_dir args))
               (\<lambda>_. return_p ()))
            [(is_KeyboardInterrupt, \<lambda>e. print_p ([CHR 0x0A] @ sym_stop @ '' Server stopped''))])"

section \<open>start-local-chromadb-server.py\<close>

definition install_chromadb :: "world \<Rightarrow> bool prog" where
  "install_chromadb w =
     try_except
       (bind_p
          (seq_p
             [import_p w ''chromadb'',
              logger_info (''ChromaDB already installed: '' @ chromadb_version w)])
          (\<lambda>_. return_p True))
       [(is_ImportError, \<lambda>e.
           bind_p (logger_info ''ChromaDB not found, installing...'') (\<lambda>_.
             try_except
               (bind_p
                  (seq_p
                     [call_p w (Check_call [sys_executable w, ''-m'', ''pip'', ''install'', ''chromadb'']),
                      logger_info ''ChromaDB installed successfully''])
                  (\<lambda>_. return_p True))
               [(is_CalledProcessError, \<lambda>e.
                   bind_p (logger_error (''Failed to install ChromaDB: '' @ str_exn e))
                     (\<lambda>_. return_p False))]))]"

text \<open>Line 71: \<open>app = chromadb.server.fastapi.app\<close>.\<close>

definition getattr_app :: "world \<Rightarrow> unit prog" where
  "getattr_app w s =
     (case fastapi_app_error w (trace s) of
        None \<Rightarrow> (Return (), s)
      | Some msg \<Rightarrow> (Raise (OtherException msg), s))"

text \<open>
  Lines 69 to 93 of \<open>start_chromadb_server\<close>: the inner \<open>try\<close> statement, which runs
  the server. (\<open>reload=False\<close> of the second \<open>uvicorn.run\<close> is not recorded.)
\<close>

definition local_run_the_server :: "world \<Rightarrow> unit prog" where
  "local_run_the_server w =
     try_except
       (seq_p
          [import_p w ''chromadb.server.fastapi'',
           getattr_app w,
           call_p w (Uvicorn_run Chromadb_app ''0.0.0.0'' 8000 ''info'')])
       [(is_Exception, \<lambda>server_error.
           seq_p
             [logger_error (''Server startup failed: '' @ str_exn server_error),
              logger_info ''Trying alternative server method...'',
              import_p w ''chromadb.server.fastapi'',
              import_p w ''uvicorn'',
              call_p w
                (Uvicorn_run (Import_string ''chromadb.server.fastapi:app'') ''localhost''
                   8000 ''info'')])]"

definition local_start_chromadb_server :: "world \<Rightarrow> bool option prog" where
  "local_start_chromadb_server w =
     try_except
       (bind_p
          (seq_p
             [import_p w ''chromadb'',
              import_p w ''chromadb.config'',
              import_p w ''uvicorn'',
              bind_p (expanduser w ''~/.forest-data'') (\<lambda>forest_data_dir.
                seq_p
                  [mkdir_p False (Path forest_data_dir),
                   mkdir_p False (Path (path_join forest_data_dir ''.chromadb'')),
                   logger_info (''ChromaDB data directory: '' @ path_join forest_data_dir ''.chromadb''),
                   call_p w
                     (Settings_init
                        (Settings ''duckdb+parquet'' (path_join forest_data_dir ''.chromadb'')
                           ''localhost'' 8000 False)),
                   call_p w
                     (Client_init
                        (Some (Settings ''duckdb+parquet'' (path_join forest_data_dir ''.chromadb'')
                           ''localhost'' 8000 False)))]),
              logger_info ''ChromaDB client created with persistence'',
              logger_info ''Starting ChromaDB server on http://localhost:8000'',
              logger_info ''Press Ctrl+C to stop the server'',
              local_run_the_server w])
          (\<lambda>_. return_p None))
       [(is_ImportError, \<lambda>e.
           bind_p
             (seq_p
                [logger_error (''ChromaDB import failed: '' @ str_exn e),
                 logger_error ''Try installing ChromaDB with: pip install chromadb''])
             (\<lambda>_. return_p (Some False))),
        (is_Exception, \<lambda>e.
           bind_p (logger_error (''Failed to start ChromaDB server: '' @ str_exn e))
             (\<lambda>_. return_p (Some False)))]"

definition local_main :: "world \<Rightarrow> unit prog" where
  "local_main w =
     seq_p
       [logger_info (sym_rocket @ '' Starting ChromaDB server for Forest MCP''),
        bind_p (install_chromadb w) (\<lambda>installed.
          if installed then return_p ()
          else seq_p [logger_error (sym_cross @ '' Failed to install ChromaDB''), sys_exit 1]),
        try_except
          (bind_p (local_start_chromadb_server w) (\<lambda>_. return_p ()))
          [(is_KeyboardInterrupt, \<lambda>e.
              logger_info (sym_stop @ '' ChromaDB server stopped by user'')),
           (is_Exception, \<lambda>e.
              seq_p
                [logger_error (sym_cross @ '' ChromaDB server failed: '' @ str_exn e),
                 sys_exit 1])]]"

section \<open>test-chromadb-simple.py\<close>

text \<open>Line 45: \<open>attrs\<close>, the module's attributes that do not start with an underscore.\<close>

definition attrs :: "world \<Rightarrow> string list" where
  "attrs w = filter (\<lambda>attr. \<not> startswith attr ''_'') (chromadb_dir w)"

text \<open>Lines 44 to 49: the listing of the module's public attributes.\<close>

definition list_module_contents :: "world \<Rightarrow> unit prog" where
  "list_module_contents w =
     seq_p
       [logger_info (sym_package @ '' ChromaDB module contents:''),
        seq_p (map (\<lambda>attr. logger_info (''   - '' @ attr)) (take 10 (attrs w))),
        (if length (attrs w) > 10
         then logger_info (''   ... and '' @ str_nat (length (attrs w) - 10) @ '' more'')
         else return_p ())]"

definition test_chromadb :: "world \<Rightarrow> bool prog" where
  "test_chromadb w =
     bind_p
       (try_except
          (bind_p
             (seq_p
                [import_p w ''chromadb'',
                 logger_info (sym_check @ '' ChromaDB version: '' @ chromadb_version w),
                 try_except
                   (seq_p
                      [import_p w ''chromadb.server.fastapi'',
                       logger_info (sym_check @ '' FastAPI server module available'')])
                   [(is_ImportError, \<lambda>e.
                       logger_error (sym_cross @ '' FastAPI server not available: '' @ str_exn e))],
                 try_except
                   (seq_p
                      [import_p w ''uvicorn'',
                       logger_info (sym_check @ '' Uvicorn available'')])
                   [(is_ImportError, \<lambda>e.
                       seq_p
                         [logger_error (sym_cross @ '' Uvicorn not available: '' @ str_exn e),
                          logger_info (sym_bulb @ '' Install with: pip install uvicorn'')])],
                 try_except
                   (seq_p
                      [call_p w (Client_init None),
                       logger_info (sym_check @ '' Basic ChromaDB client created''),
                       bind_p
                         (call_ret w (Client_list_collections (Client None)) (collections_listed w))
                         (\<lambda>collections.
                            logger_info
                              (sym_check @ '' Collections listed: ''
                                 @ str_nat (length collections) @ '' found''))])
                   [(is_Exception, \<lambda>e.
                       logger_error (sym_cross @ '' Client creation failed: '' @ str_exn e))],
                 list_module_contents w])
             (\<lambda>_. return_p None))
          [(is_ImportError, \<lambda>e.
              bind_p (logger_error (sym_cross @ '' ChromaDB not available: '' @ str_exn e))
                (\<lambda>_. return_p (Some False)))])
       (\<lambda>returned. case returned of Some b \<Rightarrow> return_p b | None \<Rightarrow> return_p True)"

section \<open>Runs: processes, worlds and the calls that serve\<close>

text \<open>A process as the interpreter starts it: nothing printed, logged or called yet.\<close>

definition start_state :: "(string \<Rightarrow> string option) \<Rightarrow> tree \<Rightarrow> string list \<Rightarrow> proc" where
  "start_state env t wd =
     \<lparr>stdout = [], log = [], environ = env, fs = t, cwd = wd, trace = [], root_level = None\<rparr>"

text \<open>The calls that serve: they block until the server stops.\<close>

fun is_serving :: "call \<Rightarrow> bool" where
  "is_serving (Run_server h p st) = True"
| "is_serving (Uvicorn_run a h p l) = True"
| "is_serving c = False"

fun is_route :: "call \<Rightarrow> bool" where
  "is_route (Route m p e) = True"
| "is_route c = False"

fun is_client_call :: "call \<Rightarrow> bool" where
  "is_client_call (Client_list_collections c) = True"
| "is_client_call (Client_create_collection c n m) = True"
| "is_client_call (Client_get_collection c n) = True"
| "is_client_call c = False"

text \<open>
  \<open>int()\<close> on a plain decimal numeral: an optional sign and ASCII digits. (The
  interpreter also reads numerals with surrounding white space, with underscores between
  digits, and in other scripts; the worlds below reject those.)
\<close>

definition digit_value :: "char \<Rightarrow> nat" where
  "digit_value c = length (takeWhile (\<lambda>d. d \<noteq> c) ''0123456789'')"

definition digits_value :: "string \<Rightarrow> int option" where
  "digits_value ds =
     (if ds \<noteq> [] \<and> list_all (\<lambda>c. c \<in> set ''0123456789'') ds
      then Some (int (foldl (\<lambda>n c. 10 * n + digit_value c) 0 ds))
      else None)"

fun decimal :: "string \<Rightarrow> int option" where
  "decimal [] = None"
| "decimal (c # cs) =
     (if c = CHR ''-'' then map_option uminus (digits_value cs)
      else if c = CHR ''+'' then digits_value cs
      else digits_value (c # cs))"

text \<open>
  Worlds to run the scripts in. In \<open>world_ok\<close> every import and call succeeds, and the
  library is an old one, without \<open>run_server\<close>.
\<close>

definition world_ok :: world where
  "world_ok =
     \<lparr>import_error = (\<lambda>h m. None),
      raises = (\<lambda>h c. None),
      chromadb_version = ''0.3.29'',
      chromadb_has_run_server = False,
      chromadb_dir =
        [''API'', ''Client'', ''Collection'', ''Documents'', ''EmbeddingFunction'', ''Embeddings'',
         ''GetResult'', ''IDs'', ''Include'', ''Metadatas'', ''QueryResult'', ''Settings'', ''Where'',
         ''__builtins__'', ''__doc__'', ''__name__'', ''__version__'', ''_client'', ''config''],
      collections_listed = (\<lambda>h. []),
      collection_returned = (\<lambda>h. \<lparr>c_name = ''docs'', c_id = ''c0ffee''\<rparr>),
      time_ns = (\<lambda>h. 1700000000000000000),
      sys_executable = ''/usr/bin/python3'',
      pw_dir = Some ''/home/user'',
      py_int = decimal,
      str_upper = map upper_char,
      str_lower = map lower_char,
      logging_error =
        (\<lambda>name. if name = ''BASIC_FORMAT''
                then ''Unknown level: '' @ [CHR 0x27] @ ''%(levelname)s:%(name)s:%(message)s'' @ [CHR 0x27]
                else ''module '' @ [CHR 0x27] @ ''logging'' @ [CHR 0x27] @ '' has no attribute ''
                       @ [CHR 0x27] @ name @ [CHR 0x27]),
      fastapi_app_error = (\<lambda>h. None)\<rparr>"

definition world_run_server :: world where
  "world_run_server = world_ok\<lparr>chromadb_has_run_server := True\<rparr>"

text \<open>No third-party module is installed, and installing does not help.\<close>

definition world_no_chromadb :: world where
  "world_no_chromadb =
     world_ok\<lparr>import_error := (\<lambda>h m. Some (''No module named '' @ [CHR 0x27] @ m @ [CHR 0x27]))\<rparr>"

text \<open>Only chromadb itself is installed.\<close>

definition world_no_companions :: world where
  "world_no_companions =
     world_ok\<lparr>import_error :=
       (\<lambda>h m. if m = ''chromadb'' then None
               else Some (''No module named '' @ [CHR 0x27] @ m @ [CHR 0x27]))\<rparr>"

text \<open>The library refuses to make a client.\<close>

definition world_client_fails :: world where
  "world_client_fails =
     world_ok\<lparr>raises :=
       (\<lambda>h c. case c of
                 Client_init st \<Rightarrow> Some (OtherException ''unsupported configuration'')
               | PersistentClient_init d \<Rightarrow> Some (OtherException ''unsupported configuration'')
               | _ \<Rightarrow> None)\<rparr>"

text \<open>The user presses Ctrl-C while the server runs.\<close>

definition world_interrupted :: world where
  "world_interrupted =
     world_ok\<lparr>raises := (\<lambda>h c. if is_serving c then Some KeyboardInterrupt else None)\<rparr>"

definition world_run_server_interrupted :: world where
  "world_run_server_interrupted = world_interrupted\<lparr>chromadb_has_run_server := True\<rparr>"

text \<open>The port of the first attempt to serve is taken.\<close>

definition world_first_attempt_fails :: world where
  "world_first_attempt_fails =
     world_run_server\<lparr>raises :=
       (\<lambda>h c. if c = Uvicorn_run Chromadb_app ''0.0.0.0'' 8000 ''info''
               then Some (OtherException ''[Errno 98] address already in use'')
               else None)\<rparr>"

text \<open>A file system with the home directory \<open>/home/user\<close>, and an empty one.\<close>

definition home_tree :: tree where
  "home_tree = Dir (Map.empty(''home'' \<mapsto> Dir (Map.empty(''user'' \<mapsto> Dir Map.empty))))"

definition empty_tree :: tree where
  "empty_tree = Dir Map.empty"

section \<open>Properties of statements\<close>

text \<open>
  Properties that hold of a block when they hold of its statements, so that a script is
  verified statement by statement.
  \<^item> \<open>unchanged f m\<close>: running \<open>m\<close> leaves the component \<open>f\<close> of the process as it was;
  \<^item> \<open>grows m\<close>: running \<open>m\<close> only adds lines to standard output;
  \<^item> \<open>ki_propagates w m\<close>: when the last call \<open>m\<close> made is a serving call that raised
    \<open>KeyboardInterrupt\<close>, then \<open>m\<close> raises \<open>KeyboardInterrupt\<close>;
  \<^item> \<open>follows m L Q\<close>: the calls \<open>m\<close> makes are a prefix of \<open>L\<close>, and all of \<open>L\<close> when
    \<open>m\<close> returns; the value returned satisfies \<open>Q\<close>;
  \<^item> \<open>within m L\<close>: the calls \<open>m\<close> makes are a prefix of \<open>L\<close>;
  \<^item> \<open>emits P m\<close>: every call \<open>m\<close> makes satisfies \<open>P\<close>.
\<close>

definition unchanged :: "(proc \<Rightarrow> 'b) \<Rightarrow> 'a prog \<Rightarrow> bool" where
  "unchanged f m = (\<forall>s. f (snd (m s)) = f s)"

definition grows :: "'a prog \<Rightarrow> bool" where
  "grows m = (\<forall>s. prefix (stdout s) (stdout (snd (m s))))"

definition ki_propagates :: "world \<Rightarrow> 'a prog \<Rightarrow> bool" where
  "ki_propagates w m =
     (\<forall>s r s'. m s = (r, s') \<longrightarrow> trace s' \<noteq> trace s \<longrightarrow> is_serving (last (trace s')) \<longrightarrow>
        raises w (butlast (trace s')) (last (trace s')) = Some KeyboardInterrupt \<longrightarrow>
        r = Raise KeyboardInterrupt)"

definition follows :: "'a prog \<Rightarrow> call list \<Rightarrow> ('a \<Rightarrow> bool) \<Rightarrow> bool" where
  "follows m L Q =
     (\<forall>s r s'. m s = (r, s') \<longrightarrow>
        (\<exists>new. trace s' = trace s @ new \<and> prefix new L \<and> (\<forall>v. r = Return v \<longrightarrow> new = L \<and> Q v)))"

definition within :: "'a prog \<Rightarrow> call list \<Rightarrow> bool" where
  "within m L = (\<forall>s. \<exists>new. trace (snd (m s)) = trace s @ new \<and> prefix new L)"

definition emits :: "(call \<Rightarrow> bool) \<Rightarrow> 'a prog \<Rightarrow> bool" where
  "emits P m = (\<forall>s. \<exists>new. trace (snd (m s)) = trace s @ new \<and> list_all P new)"



text \<open>The four routes of \<open>start_simple_server\<close>, and all its calls when nothing fails.\<close>

definition routes :: "call list" where
  "routes =
     [Route GET ''/api/v1/heartbeat'' Heartbeat,
      Route GET ''/api/v1/collections'' List_collections,
      Route POST ''/api/v1/collections'' Create_collection,
      Route GET ''/api/v1/collections/{collection_name}'' Get_collection]"

fun client_call :: "string option \<Rightarrow> call" where
  "client_call None = Client_init None"
| "client_call (Some d) = (if d = [] then Client_init None else PersistentClient_init d)"

definition simple_calls :: "string \<Rightarrow> int \<Rightarrow> string option \<Rightarrow> call list" where
  "simple_calls host port data_dir =
     [Import ''chromadb'', Import ''fastapi'', Import ''fastapi.middleware.cors'', Import ''uvicorn'',
      FastAPI_init ''ChromaDB Simple Server'', Add_middleware [''*''] True [''*''] [''*''],
      client_call data_dir]
       @ routes @ [Uvicorn_run Simple_server_app host port ''info'']"




definition forest_data_dir :: "world \<Rightarrow> proc \<Rightarrow> string" where
  "forest_data_dir w s = expanduser_str w (environ s) ''~/.forest-data''"








section \<open>Lemmas about the runtime\<close>

lemmas prog_defs = return_p_def raise_p_def bind_p_def try_except_def print_p_def
  logger_info_def logger_error_def sys_exit_def setenv_def import_p_def call_p_def call_ret_def

lemmas world_defs = world_ok_def world_run_server_def world_no_chromadb_def
  world_no_companions_def world_client_fails_def world_interrupted_def
  world_run_server_interrupted_def world_first_attempt_fails_def

lemma ImportError_is_Exception: "is_ImportError e \<Longrightarrow> is_Exception e"
  by (cases e) simp_all

lemma KeyboardInterrupt_not_Exception: "is_KeyboardInterrupt e \<Longrightarrow> \<not> is_Exception e"
  by (cases e) simp_all

subsection \<open>Components a statement leaves alone\<close>

lemma unchangedD: "unchanged f m \<Longrightarrow> m s = (r, s') \<Longrightarrow> f s' = f s"
  unfolding unchanged_def by (metis snd_conv)

lemma unchanged_bind [intro!]:
  assumes "unchanged f m" and "\<And>v. unchanged f (g v)"
  shows "unchanged f (bind_p m g)"
  unfolding unchanged_def
proof
  fix s
  obtain r1 s1 where m: "m s = (r1, s1)" by (cases "m s")
  show "f (snd (bind_p m g s)) = f s"
  proof (cases r1)
    case (Return v)
    obtain r2 s2 where g: "g v s1 = (r2, s2)" by (cases "g v s1")
    from unchangedD [OF assms(1) m] unchangedD [OF assms(2) g] m g Return
    show ?thesis by (simp add: bind_p_def)
  next
    case (Raise e)
    with unchangedD [OF assms(1) m] m show ?thesis by (simp add: bind_p_def)
  qed
qed

lemma unchanged_bind_post:
  assumes "unchanged f m" and "\<And>s v s'. m s = (Return v, s') \<Longrightarrow> P v"
      and "\<And>v. P v \<Longrightarrow> unchanged f (g v)"
  shows "unchanged f (bind_p m g)"
  unfolding unchanged_def
proof
  fix s
  obtain r1 s1 where m: "m s = (r1, s1)" by (cases "m s")
  show "f (snd (bind_p m g s)) = f s"
  proof (cases r1)
    case (Return v)
    obtain r2 s2 where g: "g v s1 = (r2, s2)" by (cases "g v s1")
    from m Return assms(2) have "P v" by blast
    from unchangedD [OF assms(1) m] unchangedD [OF assms(3) [OF this] g] m g Return
    show ?thesis by (simp add: bind_p_def)
  next
    case (Raise e)
    with unchangedD [OF assms(1) m] m show ?thesis by (simp add: bind_p_def)
  qed
qed

lemma unchanged_return [intro!]: "unchanged f (return_p v)"
  by (simp add: unchanged_def prog_defs)

lemma unchanged_raise [intro!]: "unchanged f (raise_p e)"
  by (simp add: unchanged_def prog_defs)

lemma unchanged_sys_exit [intro!]: "unchanged f (sys_exit n)"
  by (simp add: unchanged_def prog_defs)

lemma unchanged_seq_Nil [intro!]: "unchanged f (seq_p [])"
  by (simp add: unchanged_return)

lemma unchanged_seq_Cons [intro!]:
  "unchanged f m \<Longrightarrow> unchanged f (seq_p ms) \<Longrightarrow> unchanged f (seq_p (m # ms))"
  by (simp add: unchanged_bind)

lemma unchanged_handle:
  "list_all (\<lambda>ch. \<forall>e. unchanged f (snd ch e)) hs \<Longrightarrow> unchanged f (handle_exn hs e)"
  by (induction hs) (auto simp add: unchanged_raise)

lemma unchanged_try [intro!]:
  assumes "unchanged f m" and "list_all (\<lambda>ch. \<forall>e. unchanged f (snd ch e)) hs"
  shows "unchanged f (try_except m hs)"
  unfolding unchanged_def
proof
  fix s
  obtain r1 s1 where m: "m s = (r1, s1)" by (cases "m s")
  show "f (snd (try_except m hs s)) = f s"
  proof (cases r1)
    case (Return v)
    with unchangedD [OF assms(1) m] m show ?thesis by (simp add: try_except_def)
  next
    case (Raise e)
    obtain r2 s2 where h: "handle_exn hs e s1 = (r2, s2)" by (cases "handle_exn hs e s1")
    from unchangedD [OF assms(1) m] unchangedD [OF unchanged_handle [OF assms(2)] h] m h Raise
    show ?thesis by (simp add: try_except_def)
  qed
qed

lemma unchanged_when_truthy [intro!]:
  "(\<And>d. d \<noteq> [] \<Longrightarrow> unchanged f (body d)) \<Longrightarrow> unchanged f (when_truthy dd body)"
  by (cases dd) (auto simp add: unchanged_return)

lemma unchanged_if [intro!]:
  "unchanged f a \<Longrightarrow> unchanged f b \<Longrightarrow> unchanged f (if c then a else b)"
  by simp

lemma unchanged_environ [intro!]:
  "unchanged environ (print_p l)"
  "unchanged environ (logger_info l)"
  "unchanged environ (logger_error l)"
  "unchanged environ (import_p w md)"
  "unchanged environ (call_p w c)"
  "unchanged environ (call_ret w c ret)"
  "unchanged environ (mkdir_p b p)"
  "unchanged environ (expanduser w x)"
  "unchanged environ (logging_basicConfig w n)"
  "unchanged environ (getattr_app w)"
  by (simp_all add: unchanged_def prog_defs mkdir_p_def expanduser_def logging_basicConfig_def
        getattr_app_def
        split: option.splits sum.splits)

lemma unchanged_fs [intro!]:
  "unchanged fs (print_p l)"
  "unchanged fs (logger_info l)"
  "unchanged fs (logger_error l)"
  "unchanged fs (import_p w md)"
  "unchanged fs (call_p w c)"
  "unchanged fs (call_ret w c ret)"
  "unchanged fs (setenv k v)"
  "unchanged fs (expanduser w x)"
  "unchanged fs (logging_basicConfig w n)"
  "unchanged fs (getattr_app w)"
  by (simp_all add: unchanged_def prog_defs expanduser_def logging_basicConfig_def
        getattr_app_def
        split: option.splits sum.splits)

lemma unchanged_cwd [intro!]:
  "unchanged cwd (print_p l)"
  "unchanged cwd (logger_info l)"
  "unchanged cwd (logger_error l)"
  "unchanged cwd (import_p w md)"
  "unchanged cwd (call_p w c)"
  "unchanged cwd (call_ret w c ret)"
  "unchanged cwd (setenv k v)"
  "unchanged cwd (mkdir_p b p)"
  "unchanged cwd (expanduser w x)"
  "unchanged cwd (logging_basicConfig w n)"
  "unchanged cwd (getattr_app w)"
  by (simp_all add: unchanged_def prog_defs mkdir_p_def expanduser_def logging_basicConfig_def
        getattr_app_def
        split: option.splits sum.splits)

subsection \<open>Standard output only grows\<close>

lemma growsD: "grows m \<Longrightarrow> m s = (r, s') \<Longrightarrow> prefix (stdout s) (stdout s')"
  unfolding grows_def by (metis snd_conv)

lemma grows_silent: "unchanged stdout m \<Longrightarrow> grows m"
  by (simp add: grows_def unchanged_def)

lemma grows_bind [intro!]:
  assumes "grows m" and "\<And>v. grows (g v)"
  shows "grows (bind_p m g)"
  unfolding grows_def
proof
  fix s
  obtain r1 s1 where m: "m s = (r1, s1)" by (cases "m s")
  show "prefix (stdout s) (stdout (snd (bind_p m g s)))"
  proof (cases r1)
    case (Return v)
    obtain r2 s2 where g: "g v s1 = (r2, s2)" by (cases "g v s1")
    from growsD [OF assms(1) m] growsD [OF assms(2) g] have "prefix (stdout s) (stdout s2)"
      by (rule prefix_order.order_trans)
    with m g Return show ?thesis by (simp add: bind_p_def)
  next
    case (Raise e)
    with growsD [OF assms(1) m] m show ?thesis by (simp add: bind_p_def)
  qed
qed

lemma grows_prims [intro!]:
  "grows (return_p v)"
  "grows (raise_p e)"
  "grows (sys_exit n)"
  "grows (print_p l)"
  "grows (logger_info l)"
  "grows (logger_error l)"
  "grows (import_p w md)"
  "grows (call_p w c)"
  "grows (call_ret w c ret)"
  "grows (setenv k x)"
  "grows (mkdir_p b p)"
  "grows (expanduser w y)"
  "grows (logging_basicConfig w na)"
  "grows (getattr_app w)"
  by (simp_all add: grows_def prog_defs mkdir_p_def expanduser_def logging_basicConfig_def
        getattr_app_def
        split: option.splits sum.splits)

lemma grows_seq_Nil [intro!]: "grows (seq_p [])"
  by (simp add: grows_prims)

lemma grows_seq_Cons [intro!]: "grows m \<Longrightarrow> grows (seq_p ms) \<Longrightarrow> grows (seq_p (m # ms))"
  by (simp add: grows_bind)

lemma grows_handle: "list_all (\<lambda>ch. \<forall>e. grows (snd ch e)) hs \<Longrightarrow> grows (handle_exn hs e)"
  by (induction hs) (auto simp add: grows_prims)

lemma grows_try [intro!]:
  assumes "grows m" and "list_all (\<lambda>ch. \<forall>e. grows (snd ch e)) hs"
  shows "grows (try_except m hs)"
  unfolding grows_def
proof
  fix s
  obtain r1 s1 where m: "m s = (r1, s1)" by (cases "m s")
  show "prefix (stdout s) (stdout (snd (try_except m hs s)))"
  proof (cases r1)
    case (Return v)
    with growsD [OF assms(1) m] m show ?thesis by (simp add: try_except_def)
  next
    case (Raise e)
    obtain r2 s2 where h: "handle_exn hs e s1 = (r2, s2)" by (cases "handle_exn hs e s1")
    from growsD [OF assms(1) m] growsD [OF grows_handle [OF assms(2)] h]
    have "prefix (stdout s) (stdout s2)" by (rule prefix_order.order_trans)
    with m h Raise show ?thesis by (simp add: try_except_def)
  qed
qed

lemma grows_when_truthy [intro!]: "(\<And>d. grows (body d)) \<Longrightarrow> grows (when_truthy dd body)"
  by (cases dd) (auto simp add: grows_prims)

lemma grows_if [intro!]: "grows a \<Longrightarrow> grows b \<Longrightarrow> grows (if c then a else b)"
  by simp

subsection \<open>Interrupts propagate\<close>

lemma ki_silent:
  "(\<And>s. trace (snd (m s)) = trace s) \<Longrightarrow> ki_propagates w m"
  unfolding ki_propagates_def by (metis snd_conv)

lemma ki_return [intro!]: "ki_propagates w (return_p v)"
  by (rule ki_silent) (simp add: prog_defs)
lemma ki_raise [intro!]: "ki_propagates w (raise_p e)"
  by (rule ki_silent) (simp add: prog_defs)
lemma ki_sys_exit [intro!]: "ki_propagates w (sys_exit n)"
  by (rule ki_silent) (simp add: prog_defs)
lemma ki_print [intro!]: "ki_propagates w (print_p l)"
  by (rule ki_silent) (simp add: prog_defs)
lemma ki_info [intro!]: "ki_propagates w (logger_info l)"
  by (rule ki_silent) (simp add: prog_defs)
lemma ki_error [intro!]: "ki_propagates w (logger_error l)"
  by (rule ki_silent) (simp add: prog_defs)
lemma ki_setenv [intro!]: "ki_propagates w (setenv k v)"
  by (rule ki_silent) (simp add: prog_defs)
lemma ki_mkdir [intro!]: "ki_propagates w (mkdir_p b p)"
  by (rule ki_silent) (simp add: mkdir_p_def split: sum.splits)
lemma ki_expanduser [intro!]: "ki_propagates w (expanduser w' p)"
  by (rule ki_silent) (simp add: expanduser_def split: option.splits)
lemma ki_basicConfig [intro!]: "ki_propagates w (logging_basicConfig w' n)"
  by (rule ki_silent) (simp add: logging_basicConfig_def split: option.splits)
lemma ki_getattr_app [intro!]: "ki_propagates w (getattr_app w')"
  by (rule ki_silent) (simp add: getattr_app_def split: option.splits)
lemma ki_import [intro!]: "ki_propagates w (import_p w m)"
  unfolding ki_propagates_def by (auto simp add: prog_defs split: option.splits)
lemma ki_call [intro!]: "ki_propagates w (call_p w c)"
  unfolding ki_propagates_def by (auto simp add: prog_defs split: option.splits)
lemma ki_call_ret [intro!]: "ki_propagates w (call_ret w c f)"
  unfolding ki_propagates_def by (auto simp add: prog_defs split: option.splits)

lemma ki_bind [intro!]:
  assumes "ki_propagates w m" and "\<And>v. ki_propagates w (f v)"
  shows "ki_propagates w (bind_p m f)"
  unfolding ki_propagates_def
proof (intro allI impI)
  fix s r s'
  assume run: "bind_p m f s = (r, s')" and new: "trace s' \<noteq> trace s"
    and srv: "is_serving (last (trace s'))"
    and ki: "raises w (butlast (trace s')) (last (trace s')) = Some KeyboardInterrupt"
  obtain r1 s1 where m: "m s = (r1, s1)" by (cases "m s")
  show "r = Raise KeyboardInterrupt"
  proof (cases r1)
    case (Return v)
    with run m have f: "f v s1 = (r, s')" by (simp add: bind_p_def)
    show ?thesis
    proof (cases "trace s' = trace s1")
      case True
      with assms(1) m new srv ki have "r1 = Raise KeyboardInterrupt"
        unfolding ki_propagates_def by metis
      with Return show ?thesis by simp
    next
      case False
      with assms(2) f srv ki show ?thesis unfolding ki_propagates_def by metis
    qed
  next
    case (Raise e)
    with run m have r: "r = Raise e" and s1: "s' = s1" by (simp_all add: bind_p_def)
    from assms(1) m new srv ki s1 have "r1 = Raise KeyboardInterrupt"
      unfolding ki_propagates_def by metis
    with Raise r show ?thesis by simp
  qed
qed

lemma ki_seq_Nil [intro!]: "ki_propagates w (seq_p [])"
  by (simp add: ki_return)

lemma ki_seq_Cons [intro!]:
  "ki_propagates w m \<Longrightarrow> ki_propagates w (seq_p ms) \<Longrightarrow> ki_propagates w (seq_p (m # ms))"
  by (simp add: ki_bind)

lemma ki_handle:
  assumes "list_all (\<lambda>ch. \<not> fst ch KeyboardInterrupt \<and> (\<forall>e. ki_propagates w (snd ch e))) hs"
  shows "ki_propagates w (handle_exn hs e)"
  using assms by (induction hs) (auto simp add: ki_raise)

lemma ki_try [intro!]:
  assumes "ki_propagates w m"
      and "list_all (\<lambda>ch. \<not> fst ch KeyboardInterrupt \<and> (\<forall>e. ki_propagates w (snd ch e))) hs"
  shows "ki_propagates w (try_except m hs)"
  unfolding ki_propagates_def
proof (intro allI impI)
  fix s r s'
  assume run: "try_except m hs s = (r, s')" and new: "trace s' \<noteq> trace s"
    and srv: "is_serving (last (trace s'))"
    and ki: "raises w (butlast (trace s')) (last (trace s')) = Some KeyboardInterrupt"
  obtain r1 s1 where m: "m s = (r1, s1)" by (cases "m s")
  show "r = Raise KeyboardInterrupt"
  proof (cases r1)
    case (Return v)
    with run m have "r = r1" "s' = s1" by (simp_all add: try_except_def)
    with assms(1) m new srv ki show ?thesis unfolding ki_propagates_def by metis
  next
    case (Raise e)
    with run m have h: "handle_exn hs e s1 = (r, s')" by (simp add: try_except_def)
    show ?thesis
    proof (cases "trace s' = trace s1")
      case True
      with assms(1) m new srv ki have "r1 = Raise KeyboardInterrupt"
        unfolding ki_propagates_def by metis
      with Raise have e: "e = KeyboardInterrupt" by simp
      from assms(2) have "handle_exn hs KeyboardInterrupt = raise_p KeyboardInterrupt"
        by (induction hs) auto
      with h e show ?thesis by (simp add: raise_p_def)
    next
      case False
      with ki_handle [OF assms(2), of e] h srv ki show ?thesis
        unfolding ki_propagates_def by metis
    qed
  qed
qed

lemma ki_when_truthy [intro!]:
  "(\<And>d. ki_propagates w (body d)) \<Longrightarrow> ki_propagates w (when_truthy dd body)"
  by (cases dd) (auto simp add: ki_return)

lemma ki_if [intro!]:
  "ki_propagates w a \<Longrightarrow> ki_propagates w b \<Longrightarrow> ki_propagates w (if c then a else b)"
  by simp

lemma ki_configure [intro!]: "ki_propagates w (configure_data_dir dd)"
  by (cases dd) auto

lemma ki_make_client [intro!]: "ki_propagates w (make_client w dd)"
  by (cases dd) auto


subsection \<open>The calls of a block\<close>

lemma followsD:
  "follows m L Q \<Longrightarrow> m s = (r, s') \<Longrightarrow>
     \<exists>new. trace s' = trace s @ new \<and> prefix new L \<and> (\<forall>v. r = Return v \<longrightarrow> new = L \<and> Q v)"
  by (simp add: follows_def)

lemma follows_silent:
  assumes "\<And>s. trace (snd (m s)) = trace s" and "\<And>s v s'. m s = (Return v, s') \<Longrightarrow> Q v"
  shows "follows m [] Q"
  unfolding follows_def using assms by (metis append_Nil2 prefix_order.order_refl snd_conv)

lemma follows_return: "follows (return_p v) [] (\<lambda>x. x = v)"
  by (rule follows_silent) (simp_all add: prog_defs)
lemma follows_return_unit: "follows (return_p v) [] (\<lambda>x. True)"
  by (rule follows_silent) (simp_all add: prog_defs)
lemma follows_raise: "follows (raise_p e) [] Q"
  by (rule follows_silent) (simp_all add: prog_defs)
lemma follows_sys_exit: "follows (sys_exit n) [] Q"
  by (rule follows_silent) (simp_all add: prog_defs)
lemma follows_print: "follows (print_p l) [] (\<lambda>v. True)"
  by (rule follows_silent) (simp_all add: prog_defs)
lemma follows_setenv: "follows (setenv k v) [] (\<lambda>v. True)"
  by (rule follows_silent) (simp_all add: prog_defs)
lemma follows_mkdir: "follows (mkdir_p b p) [] (\<lambda>v. True)"
  by (rule follows_silent) (simp_all add: mkdir_p_def split: sum.splits)
lemma follows_basicConfig: "follows (logging_basicConfig w n) [] (\<lambda>v. True)"
  by (rule follows_silent) (simp_all add: logging_basicConfig_def split: option.splits)
lemma follows_getattr_app: "follows (getattr_app w) [] (\<lambda>v. True)"
  by (rule follows_silent) (simp_all add: getattr_app_def split: option.splits)
lemma follows_import: "follows (import_p w m) [Import m] (\<lambda>v. True)"
  unfolding follows_def by (auto simp add: prog_defs split: option.splits)
lemma follows_call: "follows (call_p w c) [c] (\<lambda>v. True)"
  unfolding follows_def by (auto simp add: prog_defs split: option.splits)

lemma follows_bind:
  assumes "follows m L1 Q1" and "\<And>v. Q1 v \<Longrightarrow> follows (f v) L2 Q2" and "L = L1 @ L2"
  shows "follows (bind_p m f) L Q2"
  unfolding follows_def
proof (intro allI impI)
  fix s r s'
  assume run: "bind_p m f s = (r, s')"
  obtain r1 s1 where m: "m s = (r1, s1)" by (cases "m s")
  from followsD [OF assms(1) m] obtain new1 where t1: "trace s1 = trace s @ new1"
      and p1: "prefix new1 L1" and q1: "\<forall>v. r1 = Return v \<longrightarrow> new1 = L1 \<and> Q1 v"
    by blast
  show "\<exists>new. trace s' = trace s @ new \<and> prefix new L \<and> (\<forall>v. r = Return v \<longrightarrow> new = L \<and> Q2 v)"
  proof (cases r1)
    case (Return v)
    with run m have f: "f v s1 = (r, s')" by (simp add: bind_p_def)
    from q1 Return have l1: "new1 = L1" and q: "Q1 v" by blast+
    from followsD [OF assms(2) [OF q] f] obtain new2 where t2: "trace s' = trace s1 @ new2"
        and p2: "prefix new2 L2" and q2: "\<forall>v. r = Return v \<longrightarrow> new2 = L2 \<and> Q2 v"
      by blast
    have "trace s' = trace s @ (L1 @ new2)" using t1 t2 l1 by simp
    moreover have "prefix (L1 @ new2) L" using p2 assms(3) by simp
    moreover have "\<forall>v. r = Return v \<longrightarrow> L1 @ new2 = L \<and> Q2 v" using q2 assms(3) by blast
    ultimately show ?thesis by blast
  next
    case (Raise e)
    with run m have r: "r = Raise e" and s1: "s' = s1" by (simp_all add: bind_p_def)
    have "trace s' = trace s @ new1" using t1 s1 by simp
    moreover have "prefix new1 L" using p1 assms(3) by (simp add: prefix_prefix)
    moreover have "\<forall>v. r = Return v \<longrightarrow> new1 = L \<and> Q2 v" using r by simp
    ultimately show ?thesis by blast
  qed
qed

lemma follows_seq_Nil: "follows (seq_p []) [] (\<lambda>v. True)"
  by (simp add: follows_return_unit)

lemma follows_seq_Cons:
  assumes "follows m L1 (\<lambda>v. True)" and "follows (seq_p ms) L2 (\<lambda>v. True)" and "L = L1 @ L2"
  shows "follows (seq_p (m # ms)) L (\<lambda>v. True)"
  unfolding seq_p.simps by (rule follows_bind [OF assms(1) assms(2) assms(3)])


lemmas follows_rules = follows_return_unit follows_raise follows_sys_exit follows_print follows_setenv
  follows_mkdir follows_basicConfig follows_getattr_app follows_import follows_call follows_seq_Nil

lemma follows_when_truthy:
  "(\<And>d. follows (body d) [] (\<lambda>v. True)) \<Longrightarrow> follows (when_truthy dd body) [] (\<lambda>v. True)"
  by (cases dd) (auto simp add: follows_return_unit)

subsection \<open>Command lines\<close>

lemma parse_args_state:
  "parse_args w argv u a s = (r, s') \<Longrightarrow> s' = s"
  by (induction w argv u a arbitrary: r s' rule: parse_args.induct)
     (auto simp add: prog_defs split: if_splits option.splits)

lemma simple_parse_args_state:
  "simple_parse_args w argv u a s = (r, s') \<Longrightarrow> s' = s"
  by (induction w argv u a arbitrary: r s' rule: simple_parse_args.induct)
     (auto simp add: prog_defs split: if_splits option.splits)

lemma parse_args_log_level:
  "parse_args w argv u a s = (Return a', s') \<Longrightarrow>
     args_log_level a' = args_log_level a
       \<or> args_log_level a' \<in> set [''DEBUG'', ''INFO'', ''WARNING'', ''ERROR'']"
  by (induction w argv u a arbitrary: a' s' rule: parse_args.induct)
     (auto simp add: prog_defs split: if_splits option.splits)

lemma parse_args_choices:
  "parse_args w argv u a s = (Return a', s') \<Longrightarrow> Option ''--log-level'' v \<in> set argv \<Longrightarrow>
     v \<in> set [''DEBUG'', ''INFO'', ''WARNING'', ''ERROR'']"
  by (induction w argv u a arbitrary: a' s' rule: parse_args.induct)
     (auto simp add: prog_defs split: if_splits option.splits)

lemma parse_args_data_dir:
  "parse_args w argv u a s = (Return a', s') \<Longrightarrow> \<forall>v. Option ''--data-dir'' v \<notin> set argv \<Longrightarrow>
     args_data_dir a' = args_data_dir a"
  by (induction w argv u a arbitrary: a' s' rule: parse_args.induct)
     (auto simp add: prog_defs split: if_splits option.splits)

lemma simple_parse_args_data_dir:
  "simple_parse_args w argv u a s = (Return a', s') \<Longrightarrow> \<forall>v. Option ''--data-dir'' v \<notin> set argv \<Longrightarrow>
     simple_data_dir a' = simple_data_dir a"
  by (induction w argv u a arbitrary: a' s' rule: simple_parse_args.induct)
     (auto simp add: prog_defs split: if_splits option.splits)

lemma level_names:
  "lvl \<in> set [''DEBUG'', ''INFO'', ''WARNING'', ''ERROR''] \<Longrightarrow> logging_level (upper w lvl) \<noteq> None"
  by (auto simp add: logging_level_def upper_def is_ascii_def upper_char_def ascii_lowercase_def
        ascii_uppercase_def)

section \<open>The claims\<close>

lemmas script_defs = main_def parser_def start_chromadb_server_def start_the_server_def
  simple_main_def simple_parser_def start_simple_server_def serve_simple_app_def
  local_main_def install_chromadb_def local_start_chromadb_server_def local_run_the_server_def
  getattr_app_def logging_basicConfig_def logging_level_def mkdir_p_def mkdir_exist_ok_def
  os_mkdir_def path_is_dir_def expanduser_def expanduser_str_def path_join_def Path_def
  path_root_def rstrip_sep_def start_state_def home_tree_def empty_tree_def

lemmas char_defs = upper_def is_ascii_def upper_char_def lower_def lower_char_def ascii_lowercase_def
  ascii_uppercase_def str_int_def str_nat.simps digit_char_def

lemma parse_args_rejects:
  "parse_args w argv u a s = (r, s') \<Longrightarrow>
     (\<exists>a'. r = Return a' \<and> \<not> u)
       \<or> r = Raise (SystemExit 2)
       \<or> (r = Raise (SystemExit 0) \<and> Help \<in> set argv)"
  by (induction w argv u a arbitrary: r s' rule: parse_args.induct)
     (auto simp add: prog_defs split: if_splits option.splits)

lemma simple_parse_args_rejects:
  "simple_parse_args w argv u a s = (r, s') \<Longrightarrow>
     (\<exists>a'. r = Return a' \<and> \<not> u)
       \<or> r = Raise (SystemExit 2)
       \<or> (r = Raise (SystemExit 0) \<and> Help \<in> set argv)"
  by (induction w argv u a arbitrary: r s' rule: simple_parse_args.induct)
     (auto simp add: prog_defs split: if_splits option.splits)

lemma simple_parse_args_declared:
  "simple_parse_args w argv u a s = (Return a', s') \<Longrightarrow>
     (\<forall>k v. Option k v \<in> set argv \<longrightarrow> k \<in> set [''--host'', ''--port'', ''--data-dir''])
       \<and> (\<forall>x. Unrecognized x \<notin> set argv)"
  by (induction w argv u a arbitrary: a' s' rule: simple_parse_args.induct)
     (auto simp add: prog_defs split: if_splits option.splits
        dest!: simple_parse_args_rejects)

text \<open>
  C7, as amended. With no flag given, \<open>start-chromadb-server.py\<close> parses the documented
  defaults: host 0.0.0.0, port 8000, no data directory, log level INFO. It accepts each
  of DEBUG, INFO, WARNING, ERROR as \<open>--log-level\<close> and stores it; a command line is
  accepted only when every \<open>--log-level\<close> it gives is one of the four, one of which is
  then the parsed level, and any other value ends the process with status 2 (0 when
  \<open>--help\<close> comes first). \<open>chromadb-simple-server.py\<close> parses the defaults host
  0.0.0.0, port 8000, no data directory; it declares no \<open>--log-level\<close>, its
  configuration has no log level, and a command line that gives one ends the process
  with status 2 (0 when \<open>--help\<close> is given).
\<close>

theorem parser_defaults:
  "parser w [] s =
     (Return \<lparr>args_host = ''0.0.0.0'', args_port = 8000, args_data_dir = None,
              args_log_level = ''INFO''\<rparr>, s)
   \<and> (v \<in> set [''DEBUG'', ''INFO'', ''WARNING'', ''ERROR''] \<longrightarrow>
        parser w [Option ''--log-level'' v] s =
          (Return \<lparr>args_host = ''0.0.0.0'', args_port = 8000, args_data_dir = None,
                   args_log_level = v\<rparr>, s))
   \<and> (parser w argv s = (Return a, s') \<longrightarrow>
        args_log_level a \<in> set [''DEBUG'', ''INFO'', ''WARNING'', ''ERROR'']
        \<and> (\<forall>v. Option ''--log-level'' v \<in> set argv \<longrightarrow>
               v \<in> set [''DEBUG'', ''INFO'', ''WARNING'', ''ERROR'']))
   \<and> (Option ''--log-level'' v' \<in> set argv'
        \<and> v' \<notin> set [''DEBUG'', ''INFO'', ''WARNING'', ''ERROR''] \<longrightarrow>
        fst (parser w argv' s) = Raise (SystemExit 2)
        \<or> (Help \<in> set argv' \<and> fst (parser w argv' s) = Raise (SystemExit 0)))
   \<and> simple_parser w [] s =
        (Return \<lparr>simple_host = ''0.0.0.0'', simple_port = 8000, simple_data_dir = None\<rparr>, s)
   \<and> (Option ''--log-level'' v2 \<in> set argv2 \<or> Unrecognized ''--log-level'' \<in> set argv2 \<longrightarrow>
        fst (simple_parser w argv2 s) = Raise (SystemExit 2)
        \<or> (Help \<in> set argv2 \<and> fst (simple_parser w argv2 s) = Raise (SystemExit 0)))"
proof (intro conjI impI allI)
  show "parser w [] s =
     (Return \<lparr>args_host = ''0.0.0.0'', args_port = 8000, args_data_dir = None,
              args_log_level = ''INFO''\<rparr>, s)"
    by (simp add: parser_def prog_defs)
  show "simple_parser w [] s =
     (Return \<lparr>simple_host = ''0.0.0.0'', simple_port = 8000, simple_data_dir = None\<rparr>, s)"
    by (simp add: simple_parser_def prog_defs)
next
  assume "v \<in> set [''DEBUG'', ''INFO'', ''WARNING'', ''ERROR'']"
  then show "parser w [Option ''--log-level'' v] s =
          (Return \<lparr>args_host = ''0.0.0.0'', args_port = 8000, args_data_dir = None,
                   args_log_level = v\<rparr>, s)"
    by (auto simp add: parser_def prog_defs)
next
  assume p: "parser w argv s = (Return a, s')"
  from parse_args_log_level [OF p [unfolded parser_def]]
  show "args_log_level a \<in> set [''DEBUG'', ''INFO'', ''WARNING'', ''ERROR'']" by auto
next
  fix v
  assume p: "parser w argv s = (Return a, s')" and v: "Option ''--log-level'' v \<in> set argv"
  from parse_args_choices [OF p [unfolded parser_def] v]
  show "v \<in> set [''DEBUG'', ''INFO'', ''WARNING'', ''ERROR'']" .
next
  assume h: "Option ''--log-level'' v' \<in> set argv'
        \<and> v' \<notin> set [''DEBUG'', ''INFO'', ''WARNING'', ''ERROR'']"
  obtain r s1 where run: "parse_args w argv' False
       \<lparr>args_host = ''0.0.0.0'', args_port = 8000, args_data_dir = None,
        args_log_level = ''INFO''\<rparr> s = (r, s1)"
    by (cases "parse_args w argv' False
       \<lparr>args_host = ''0.0.0.0'', args_port = 8000, args_data_dir = None,
        args_log_level = ''INFO''\<rparr> s")
  have "\<not> (\<exists>a'. r = Return a')"
  proof
    assume "\<exists>a'. r = Return a'"
    then obtain a' where "r = Return a'" ..
    with run parse_args_choices [of w argv' False _ s a' s1 v'] h show False by simp
  qed
  with parse_args_rejects [OF run] run
  show "fst (parser w argv' s) = Raise (SystemExit 2)
        \<or> (Help \<in> set argv' \<and> fst (parser w argv' s) = Raise (SystemExit 0))"
    by (auto simp add: parser_def)
next
  assume h: "Option ''--log-level'' v2 \<in> set argv2 \<or> Unrecognized ''--log-level'' \<in> set argv2"
  obtain r s1 where run: "simple_parse_args w argv2 False
       \<lparr>simple_host = ''0.0.0.0'', simple_port = 8000, simple_data_dir = None\<rparr> s = (r, s1)"
    by (cases "simple_parse_args w argv2 False
       \<lparr>simple_host = ''0.0.0.0'', simple_port = 8000, simple_data_dir = None\<rparr> s")
  have "\<not> (\<exists>a'. r = Return a')"
  proof
    assume "\<exists>a'. r = Return a'"
    then obtain a' where "r = Return a'" ..
    with run simple_parse_args_declared [of w argv2 False _ s a' s1] h show False by auto
  qed
  with simple_parse_args_rejects [OF run] run
  show "fst (simple_parser w argv2 s) = Raise (SystemExit 2)
        \<or> (Help \<in> set argv2 \<and> fst (simple_parser w argv2 s) = Raise (SystemExit 0))"
    by (auto simp add: simple_parser_def)
qed

theorem parser_defaults_witness:
  "parser world_ok [Option ''--log-level'' ''DEBUG''] (start_state Map.empty empty_tree []) =
     (Return \<lparr>args_host = ''0.0.0.0'', args_port = 8000, args_data_dir = None,
              args_log_level = ''DEBUG''\<rparr>, start_state Map.empty empty_tree [])
   \<and> args_log_level \<lparr>args_host = ''0.0.0.0'', args_port = 8000, args_data_dir = None,
              args_log_level = ''DEBUG''\<rparr> \<in> set [''DEBUG'', ''INFO'', ''WARNING'', ''ERROR'']
   \<and> Option ''--log-level'' ''TRACE'' \<in> set [Option ''--port'' ''9000'', Option ''--log-level'' ''TRACE'']
   \<and> fst (parser world_ok [Option ''--port'' ''9000'', Option ''--log-level'' ''TRACE'']
        (start_state Map.empty empty_tree [])) = Raise (SystemExit 2)
   \<and> Option ''--log-level'' ''DEBUG'' \<in> set [Option ''--log-level'' ''DEBUG'']
   \<and> fst (simple_parser world_ok [Option ''--log-level'' ''DEBUG'']
        (start_state Map.empty empty_tree [])) = Raise (SystemExit 2)"
proof -
  have p: "parser world_ok [Option ''--log-level'' ''DEBUG''] (start_state Map.empty empty_tree []) =
     (Return \<lparr>args_host = ''0.0.0.0'', args_port = 8000, args_data_dir = None,
              args_log_level = ''DEBUG''\<rparr>, start_state Map.empty empty_tree [])"
    by (simp add: parser_def prog_defs)
  from parser_defaults [of world_ok "start_state Map.empty empty_tree []" "''DEBUG''"
      "[Option ''--log-level'' ''DEBUG'']" _ "start_state Map.empty empty_tree []"
      "''TRACE''" "[Option ''--port'' ''9000'', Option ''--log-level'' ''TRACE'']"
      "''DEBUG''" "[Option ''--log-level'' ''DEBUG'']"] p
  show ?thesis by simp
qed

text \<open>
  C7 as stated fails for \<open>chromadb-simple-server.py\<close>, which the claim cites: the
  script has no \<open>--log-level\<close>, so \<open>--log-level INFO\<close>, the documented default, is no
  accepted command line; the process ends with status 2 before anything is started.
\<close>

theorem simple_server_has_no_log_level:
  "fst (simple_parser world_ok [Option ''--log-level'' ''INFO'']
     (start_state Map.empty empty_tree [])) = Raise (SystemExit 2)
   \<and> fst (simple_parser world_ok [Unrecognized ''--log-level'', Unrecognized ''INFO'']
     (start_state Map.empty empty_tree [])) = Raise (SystemExit 2)
   \<and> exit_status (fst (simple_main world_ok [Option ''--log-level'' ''INFO'']
       (start_state Map.empty empty_tree []))) = 2
   \<and> trace (snd (simple_main world_ok [Option ''--log-level'' ''INFO'']
       (start_state Map.empty empty_tree []))) = []
   \<and> parser world_ok [Option ''--log-level'' ''INFO''] (start_state Map.empty empty_tree []) =
       (Return \<lparr>args_host = ''0.0.0.0'', args_port = 8000, args_data_dir = None,
                args_log_level = ''INFO''\<rparr>, start_state Map.empty empty_tree [])"
  by (simp add: script_defs prog_defs)

text \<open>
  C1. When chromadb cannot be imported, \<open>start-chromadb-server.py\<close> prints the guidance
  and exits with status 1; \<open>chromadb-simple-server.py\<close> and
  \<open>start-local-chromadb-server.py\<close> print or log the same guidance, return \<open>False\<close> to a
  \<open>main\<close> that drops it, and end with status 0.
\<close>

theorem missing_chromadb_exit_status:
  "exit_status (fst (main world_no_chromadb [] (start_state Map.empty empty_tree []))) = 1
   \<and> exit_status (fst (simple_main world_no_chromadb [] (start_state Map.empty empty_tree []))) = 0
   \<and> stdout (snd (simple_main world_no_chromadb [] (start_state Map.empty empty_tree []))) =
       [sym_cross @ '' ChromaDB not available'',
        sym_bulb @ '' Install with: pip install chromadb'']
   \<and> exit_status (fst (local_main world_no_chromadb (start_state Map.empty home_tree []))) = 0
   \<and> log (snd (local_main world_no_chromadb (start_state Map.empty home_tree []))) =
       [(INFO, sym_rocket @ '' Starting ChromaDB server for Forest MCP''),
        (INFO, ''ChromaDB not found, installing...''),
        (INFO, ''ChromaDB installed successfully''),
        (ERROR, ''ChromaDB import failed: No module named '' @ [CHR 0x27] @ ''chromadb'' @ [CHR 0x27]),
        (ERROR, ''Try installing ChromaDB with: pip install chromadb'')]"
  by (simp add: script_defs world_defs prog_defs char_defs)

text \<open>
  C3. When the library raises some other exception during startup (here it refuses to
  make a client), \<open>chromadb-simple-server.py\<close> and \<open>start-local-chromadb-server.py\<close>
  report it, return \<open>False\<close> to a \<open>main\<close> that drops it, and end with status 0.
\<close>

theorem startup_exception_exit_status:
  "exit_status (fst (simple_main world_client_fails [] (start_state Map.empty empty_tree []))) = 0
   \<and> stdout (snd (simple_main world_client_fails [] (start_state Map.empty empty_tree []))) =
       [sym_rocket @ '' ChromaDB v0.3.29'',
        sym_globe @ '' Starting server on http://0.0.0.0:8000'',
        sym_cross @ '' Server error: unsupported configuration'']
   \<and> exit_status (fst (local_main world_client_fails (start_state Map.empty home_tree []))) = 0
   \<and> log (snd (local_main world_client_fails (start_state Map.empty home_tree []))) =
       [(INFO, sym_rocket @ '' Starting ChromaDB server for Forest MCP''),
        (INFO, ''ChromaDB already installed: 0.3.29''),
        (INFO, ''ChromaDB data directory: /home/user/.forest-data/.chromadb''),
        (ERROR, ''Failed to start ChromaDB server: unsupported configuration'')]"
  by (simp add: script_defs world_defs prog_defs char_defs)

subsection \<open>Frames of the scripts' blocks\<close>

lemma unchanged_parse_args [intro!]: "unchanged f (parse_args w argv u a)"
  unfolding unchanged_def
proof
  fix s
  obtain r s' where p: "parse_args w argv u a s = (r, s')" by (cases "parse_args w argv u a s")
  with parse_args_state [OF p] show "f (snd (parse_args w argv u a s)) = f s" by simp
qed

lemma unchanged_simple_parse_args [intro!]: "unchanged f (simple_parse_args w argv u a)"
  unfolding unchanged_def
proof
  fix s
  obtain r s' where p: "simple_parse_args w argv u a s = (r, s')"
    by (cases "simple_parse_args w argv u a s")
  with simple_parse_args_state [OF p] show "f (snd (simple_parse_args w argv u a s)) = f s" by simp
qed

lemma configure_data_dir_frames [intro!]:
  "unchanged environ (configure_data_dir dd)"
  "unchanged cwd (configure_data_dir dd)"
  "grows (configure_data_dir dd)"
  by (cases dd; auto)+

lemma make_client_frames [intro!]:
  "unchanged environ (make_client w dd)"
  "unchanged fs (make_client w dd)"
  "unchanged cwd (make_client w dd)"
  "grows (make_client w dd)"
  by (cases dd; auto)+

lemma start_the_server_frames [intro!]:
  "unchanged fs (start_the_server w host port dd lvl st)"
  "unchanged cwd (start_the_server w host port dd lvl st)"
  "unchanged environ (start_the_server w host port None lvl st)"
  "grows (start_the_server w host port dd lvl st)"
  unfolding start_the_server_def by auto

lemma serve_simple_app_frames [intro!]:
  "unchanged fs (serve_simple_app w host port dd)"
  "unchanged cwd (serve_simple_app w host port dd)"
  "unchanged environ (serve_simple_app w host port dd)"
  "grows (serve_simple_app w host port dd)"
  unfolding serve_simple_app_def by auto

lemma start_chromadb_server_environ:
  "unchanged environ (start_chromadb_server w host port None lvl)"
  unfolding start_chromadb_server_def by auto

lemma start_simple_server_environ:
  "unchanged environ (start_simple_server w host port None)"
  unfolding start_simple_server_def by auto

lemma main_environ:
  assumes "\<forall>v. Option ''--data-dir'' v \<notin> set argv"
  shows "unchanged environ (main w argv)"
  unfolding main_def
proof (rule unchanged_bind_post [where P = "\<lambda>a. args_data_dir a = None"])
  show "unchanged environ (parser w argv)" by (simp add: parser_def unchanged_parse_args)
next
  fix s v s'
  assume "parser w argv s = (Return v, s')"
  from parse_args_data_dir [OF this [unfolded parser_def] assms]
  show "args_data_dir v = None" by simp
next
  fix a :: args
  assume a: "args_data_dir a = None"
  show "unchanged environ
          (seq_p
            [print_p (sym_wrench @ '' ChromaDB Server for Forest Integration''),
             print_p (replicate 50 (CHR ''='')),
             try_except
               (start_chromadb_server w (args_host a) (args_port a)
                  (args_data_dir a) (args_log_level a))
               [(is_KeyboardInterrupt, \<lambda>e.
                   print_p ([CHR 0x0A] @ sym_stop @ '' Server stopped by user'')),
                (is_Exception, \<lambda>e.
                   seq_p
                     [print_p ([CHR 0x0A] @ sym_cross @ '' Unexpected error: '' @ str_exn e),
                      sys_exit 1])]])"
    unfolding a by (auto simp add: start_chromadb_server_environ)
qed

lemma simple_main_environ:
  assumes "\<forall>v. Option ''--data-dir'' v \<notin> set argv"
  shows "unchanged environ (simple_main w argv)"
  unfolding simple_main_def
proof (rule unchanged_bind_post [where P = "\<lambda>a. simple_data_dir a = None"])
  show "unchanged environ (simple_parser w argv)"
    by (simp add: simple_parser_def unchanged_simple_parse_args)
next
  fix s v s'
  assume "simple_parser w argv s = (Return v, s')"
  from simple_parse_args_data_dir [OF this [unfolded simple_parser_def] assms]
  show "simple_data_dir v = None" by simp
next
  fix a :: simple_args
  assume a: "simple_data_dir a = None"
  show "unchanged environ
          (try_except
            (bind_p
               (start_simple_server w (simple_host a) (simple_port a) (simple_data_dir a))
               (\<lambda>_. return_p ()))
            [(is_KeyboardInterrupt, \<lambda>e. print_p ([CHR 0x0A] @ sym_stop @ '' Server stopped''))])"
    unfolding a by (auto simp add: start_simple_server_environ)
qed

text \<open>
  C5. Without \<open>--data-dir\<close> (\<open>data_dir\<close> is \<open>None\<close>) the bootstrap scripts leave
  \<open>os.environ\<close> as it was: neither the start functions called with \<open>None\<close> nor a whole
  run on a command line without the option assigns any variable.
\<close>

theorem environ_untouched_without_data_dir:
  "environ (snd (start_chromadb_server w host port None log_level s)) = environ s
   \<and> environ (snd (start_simple_server w host port None s)) = environ s
   \<and> ((\<forall>v. Option ''--data-dir'' v \<notin> set argv) \<longrightarrow>
        environ (snd (main w argv s)) = environ s
        \<and> environ (snd (simple_main w argv s)) = environ s)"
  using start_chromadb_server_environ [of w host port log_level]
    start_simple_server_environ [of w host port]
    main_environ [of argv w] simple_main_environ [of argv w]
  unfolding unchanged_def by blast

theorem environ_untouched_without_data_dir_witness:
  "environ (snd (main world_ok [Option ''--host'' ''127.0.0.1'']
       (start_state (Map.empty(''HOME'' \<mapsto> ''/home/user'')) empty_tree []))) ''CHROMA_DB_IMPL'' = None
   \<and> environ (snd (simple_main world_ok [Option ''--host'' ''127.0.0.1'']
       (start_state (Map.empty(''HOME'' \<mapsto> ''/home/user'')) empty_tree []))) ''CHROMA_PERSIST_DIRECTORY'' = None"
proof -
  have "\<forall>v. Option ''--data-dir'' v \<notin> set [Option ''--host'' ''127.0.0.1'']" by simp
  with environ_untouched_without_data_dir [of world_ok _ _ _
      "start_state (Map.empty(''HOME'' \<mapsto> ''/home/user'')) empty_tree []"
      "[Option ''--host'' ''127.0.0.1'']"]
  show ?thesis by (simp add: start_state_def)
qed

subsection \<open>The calls a block makes\<close>

lemma emitsD:
  "emits P m \<Longrightarrow> m s = (r, s') \<Longrightarrow> \<exists>new. trace s' = trace s @ new \<and> list_all P new"
  unfolding emits_def by (metis snd_conv)

lemma emits_silent:
  assumes "\<And>s. trace (snd (m s)) = trace s"
  shows "emits P m"
  unfolding emits_def
proof
  fix s
  have "trace (snd (m s)) = trace s @ [] \<and> list_all P []" using assms by simp
  then show "\<exists>new. trace (snd (m s)) = trace s @ new \<and> list_all P new" by blast
qed

lemma emits_prims [intro!]:
  "emits P (return_p v)"
  "emits P (raise_p e)"
  "emits P (sys_exit n)"
  "emits P (print_p l)"
  "emits P (logger_info l)"
  "emits P (logger_error l)"
  "emits P (setenv k x)"
  "emits P (mkdir_p b p)"
  "emits P (expanduser w y)"
  "emits P (logging_basicConfig w na)"
  "emits P (getattr_app w)"
  by (rule emits_silent,
      simp add: prog_defs mkdir_p_def expanduser_def logging_basicConfig_def getattr_app_def
        split: option.splits sum.splits)+

lemma emits_import [intro!]: "P (Import md) \<Longrightarrow> emits P (import_p w md)"
  unfolding emits_def by (auto simp add: prog_defs split: option.splits)

lemma emits_call [intro!]: "P c \<Longrightarrow> emits P (call_p w c)"
  unfolding emits_def by (auto simp add: prog_defs split: option.splits)

lemma emits_call_ret [intro!]: "P c \<Longrightarrow> emits P (call_ret w c ret)"
  unfolding emits_def by (auto simp add: prog_defs split: option.splits)

lemma emits_bind [intro!]:
  assumes "emits P m" and "\<And>v. emits P (g v)"
  shows "emits P (bind_p m g)"
  unfolding emits_def
proof
  fix s
  obtain r1 s1 where m: "m s = (r1, s1)" by (cases "m s")
  from emitsD [OF assms(1) m] obtain new1 where n1: "trace s1 = trace s @ new1" "list_all P new1"
    by blast
  show "\<exists>new. trace (snd (bind_p m g s)) = trace s @ new \<and> list_all P new"
  proof (cases r1)
    case (Return v)
    obtain r2 s2 where g: "g v s1 = (r2, s2)" by (cases "g v s1")
    from emitsD [OF assms(2) g] obtain new2 where n2: "trace s2 = trace s1 @ new2" "list_all P new2"
      by blast
    from n1 n2 have "trace s2 = trace s @ (new1 @ new2) \<and> list_all P (new1 @ new2)" by simp
    with m g Return show ?thesis by (auto simp add: bind_p_def simp del: append_assoc)
  next
    case (Raise e)
    with m n1 show ?thesis by (auto simp add: bind_p_def)
  qed
qed

lemma emits_seq_Nil [intro!]: "emits P (seq_p [])"
  by (simp add: emits_prims)

lemma emits_seq_Cons [intro!]: "emits P m \<Longrightarrow> emits P (seq_p ms) \<Longrightarrow> emits P (seq_p (m # ms))"
  by (simp add: emits_bind)

lemma emits_handle: "list_all (\<lambda>ch. \<forall>e. emits P (snd ch e)) hs \<Longrightarrow> emits P (handle_exn hs e)"
  by (induction hs) (auto simp add: emits_prims)

lemma emits_try [intro!]:
  assumes "emits P m" and "list_all (\<lambda>ch. \<forall>e. emits P (snd ch e)) hs"
  shows "emits P (try_except m hs)"
  unfolding emits_def
proof
  fix s
  obtain r1 s1 where m: "m s = (r1, s1)" by (cases "m s")
  from emitsD [OF assms(1) m] obtain new1 where n1: "trace s1 = trace s @ new1" "list_all P new1"
    by blast
  show "\<exists>new. trace (snd (try_except m hs s)) = trace s @ new \<and> list_all P new"
  proof (cases r1)
    case (Return v)
    with m n1 show ?thesis by (auto simp add: try_except_def)
  next
    case (Raise e)
    obtain r2 s2 where h: "handle_exn hs e s1 = (r2, s2)" by (cases "handle_exn hs e s1")
    from emitsD [OF emits_handle [OF assms(2)] h] obtain new2
      where n2: "trace s2 = trace s1 @ new2" "list_all P new2" by blast
    from n1 n2 have "trace s2 = trace s @ (new1 @ new2) \<and> list_all P (new1 @ new2)" by simp
    with m h Raise show ?thesis by (auto simp add: try_except_def simp del: append_assoc)
  qed
qed

lemma emits_when_truthy [intro!]: "(\<And>d. emits P (body d)) \<Longrightarrow> emits P (when_truthy dd body)"
  by (cases dd) (auto simp add: emits_prims)

lemma emits_if [intro!]: "emits P a \<Longrightarrow> emits P b \<Longrightarrow> emits P (if c then a else b)"
  by simp

lemma emits_last:
  assumes "emits P m" and "m s = (r, s')" and "trace s' \<noteq> trace s"
  shows "P (last (trace s'))"
proof -
  from emitsD [OF assms(1, 2)] obtain new where n: "trace s' = trace s @ new" "list_all P new"
    by blast
  with assms(3) have "new \<noteq> []" by auto
  with n show ?thesis by (simp add: list_all_iff)
qed

subsection \<open>Interrupts in the scripts\<close>

lemma ki_propagatesD:
  "ki_propagates w m \<Longrightarrow> m s = (r, s') \<Longrightarrow> trace s' \<noteq> trace s \<Longrightarrow>
   is_serving (last (trace s')) \<Longrightarrow>
   raises w (butlast (trace s')) (last (trace s')) = Some KeyboardInterrupt \<Longrightarrow>
   r = Raise KeyboardInterrupt"
  unfolding ki_propagates_def by blast

lemma ki_start_the_server [intro!]: "ki_propagates w (start_the_server w host port dd lvl st)"
  unfolding start_the_server_def by auto

lemma ki_serve_simple_app [intro!]: "ki_propagates w (serve_simple_app w host port dd)"
  unfolding serve_simple_app_def by auto

lemma ki_start_chromadb_server: "ki_propagates w (start_chromadb_server w host port dd lvl)"
  unfolding start_chromadb_server_def by auto

lemma ki_start_simple_server: "ki_propagates w (start_simple_server w host port dd)"
  unfolding start_simple_server_def by auto

lemma ki_local_start: "ki_propagates w (local_start_chromadb_server w)"
  unfolding local_start_chromadb_server_def local_run_the_server_def by auto

lemma emits_install: "emits (\<lambda>c. \<not> is_serving c) (install_chromadb w)"
  unfolding install_chromadb_def by auto

text \<open>
  An interrupt that reaches a \<open>try\<close> statement whose first clause is
  \<open>except KeyboardInterrupt\<close>, and whose handlers make no call, is handled by that clause.
\<close>

lemma try_interrupted:
  assumes ki: "ki_propagates w m"
      and run: "try_except m ((is_KeyboardInterrupt, \<lambda>e. h) # hs) s = (r, s')"
      and h: "\<And>s. trace (snd (h s)) = trace s"
      and hs: "\<And>e s. trace (snd (handle_exn hs e s)) = trace s"
      and new: "trace s' \<noteq> trace s"
      and srv: "is_serving (last (trace s'))"
      and raised: "raises w (butlast (trace s')) (last (trace s')) = Some KeyboardInterrupt"
  shows "\<exists>s1. m s = (Raise KeyboardInterrupt, s1) \<and> h s1 = (r, s')"
proof -
  obtain r1 s1 where m: "m s = (r1, s1)" by (cases "m s")
  have t: "trace s' = trace s1"
  proof (cases r1)
    case (Return v)
    with run m show ?thesis by (simp add: try_except_def)
  next
    case (Raise e)
    with run m h [of s1] hs [of e s1] show ?thesis
      by (auto simp add: try_except_def split: if_splits)
  qed
  from ki_propagatesD [OF ki m] new srv raised t have r1: "r1 = Raise KeyboardInterrupt" by simp
  with run m have "h s1 = (r, s')" by (simp add: try_except_def)
  with m r1 show ?thesis by blast
qed

lemma main_interrupted:
  assumes run: "main w argv s = (r, s')"
      and new: "trace s' \<noteq> trace s"
      and srv: "is_serving (last (trace s'))"
      and raised: "raises w (butlast (trace s')) (last (trace s')) = Some KeyboardInterrupt"
  shows "r = Return () \<and> last (stdout s') = [CHR 0x0A] @ sym_stop @ '' Server stopped by user''"
proof -
  obtain pr s0 where p: "parser w argv s = (pr, s0)" by (cases "parser w argv s")
  from parse_args_state [OF p [unfolded parser_def]] have s0: "s0 = s" .
  show ?thesis
  proof (cases pr)
    case (Raise e)
    with run p s0 new show ?thesis by (simp add: main_def bind_p_def)
  next
    case (Return a)
    define s2 where "s2 = s\<lparr>stdout := stdout s @ [sym_wrench @ '' ChromaDB Server for Forest Integration'',
       replicate 50 (CHR ''='')]\<rparr>"
    define hs where "hs = [(is_Exception, \<lambda>e.
                   seq_p
                     [print_p ([CHR 0x0A] @ sym_cross @ '' Unexpected error: '' @ str_exn e),
                      sys_exit 1])]"
    obtain r3 s3 where t: "try_except
               (start_chromadb_server w (args_host a) (args_port a)
                  (args_data_dir a) (args_log_level a))
               ((is_KeyboardInterrupt, \<lambda>e.
                   print_p ([CHR 0x0A] @ sym_stop @ '' Server stopped by user'')) # hs) s2 = (r3, s3)"
      by (cases "try_except
               (start_chromadb_server w (args_host a) (args_port a)
                  (args_data_dir a) (args_log_level a))
               ((is_KeyboardInterrupt, \<lambda>e.
                   print_p ([CHR 0x0A] @ sym_stop @ '' Server stopped by user'')) # hs) s2")
    from run p s0 Return t have rs: "r = r3 \<and> s' = s3"
      by (cases r3) (simp_all add: main_def hs_def s2_def bind_p_def print_p_def return_p_def)
    have "\<exists>s1. start_chromadb_server w (args_host a) (args_port a)
                  (args_data_dir a) (args_log_level a) s2 = (Raise KeyboardInterrupt, s1)
            \<and> print_p ([CHR 0x0A] @ sym_stop @ '' Server stopped by user'') s1 = (r3, s3)"
    proof (rule try_interrupted [OF ki_start_chromadb_server t])
      show "\<And>s. trace (snd (print_p ([CHR 0x0A] @ sym_stop @ '' Server stopped by user'') s)) = trace s"
        by (simp add: print_p_def)
      show "\<And>e s. trace (snd (handle_exn hs e s)) = trace s"
        by (simp add: hs_def prog_defs)
      show "trace s3 \<noteq> trace s2" using new rs by (simp add: s2_def)
      show "is_serving (last (trace s3))" using srv rs by simp
      show "raises w (butlast (trace s3)) (last (trace s3)) = Some KeyboardInterrupt"
        using raised rs by simp
    qed
    with rs show ?thesis by (auto simp add: print_p_def)
  qed
qed

lemma simple_main_interrupted:
  assumes run: "simple_main w argv s = (r, s')"
      and new: "trace s' \<noteq> trace s"
      and srv: "is_serving (last (trace s'))"
      and raised: "raises w (butlast (trace s')) (last (trace s')) = Some KeyboardInterrupt"
  shows "r = Return () \<and> last (stdout s') = [CHR 0x0A] @ sym_stop @ '' Server stopped''"
proof -
  obtain pr s0 where p: "simple_parser w argv s = (pr, s0)" by (cases "simple_parser w argv s")
  from simple_parse_args_state [OF p [unfolded simple_parser_def]] have s0: "s0 = s" .
  show ?thesis
  proof (cases pr)
    case (Raise e)
    with run p s0 new show ?thesis by (simp add: simple_main_def bind_p_def)
  next
    case (Return a)
    have ki: "ki_propagates w
        (bind_p (start_simple_server w (simple_host a) (simple_port a) (simple_data_dir a))
           (\<lambda>_. return_p ()))"
      by (auto simp add: ki_start_simple_server)
    from run p s0 Return have t: "try_except
        (bind_p (start_simple_server w (simple_host a) (simple_port a) (simple_data_dir a))
           (\<lambda>_. return_p ()))
        ((is_KeyboardInterrupt, \<lambda>e. print_p ([CHR 0x0A] @ sym_stop @ '' Server stopped'')) # []) s
          = (r, s')"
      by (simp add: simple_main_def bind_p_def)
    have "\<exists>s1. bind_p (start_simple_server w (simple_host a) (simple_port a) (simple_data_dir a))
           (\<lambda>_. return_p ()) s = (Raise KeyboardInterrupt, s1)
            \<and> print_p ([CHR 0x0A] @ sym_stop @ '' Server stopped'') s1 = (r, s')"
    proof (rule try_interrupted [OF ki t _ _ new srv raised])
      show "\<And>s. trace (snd (print_p ([CHR 0x0A] @ sym_stop @ '' Server stopped'') s)) = trace s"
        by (simp add: print_p_def)
      show "\<And>e s. trace (snd (handle_exn [] e s)) = trace s"
        by (simp add: prog_defs)
    qed
    then show ?thesis by (auto simp add: print_p_def)
  qed
qed

lemma local_main_interrupted:
  assumes run: "local_main w s = (r, s')"
      and new: "trace s' \<noteq> trace s"
      and srv: "is_serving (last (trace s'))"
      and raised: "raises w (butlast (trace s')) (last (trace s')) = Some KeyboardInterrupt"
  shows "r = Return () \<and> last (log s') = (INFO, sym_stop @ '' ChromaDB server stopped by user'')"
proof -
  define s1 where "s1 = s\<lparr>log := log s @ [(INFO, sym_rocket @ '' Starting ChromaDB server for Forest MCP'')]\<rparr>"
  define hs where "hs = [(is_Exception, \<lambda>e.
              seq_p
                [logger_error (sym_cross @ '' ChromaDB server failed: '' @ str_exn e),
                 sys_exit 1])]"
  obtain ri s2 where i: "install_chromadb w s1 = (ri, s2)" by (cases "install_chromadb w s1")
  have quiet: "trace s2 \<noteq> trace s \<Longrightarrow> \<not> is_serving (last (trace s2))"
    using emits_last [OF emits_install i] by (simp add: s1_def)
  have ki: "ki_propagates w (bind_p (local_start_chromadb_server w) (\<lambda>_. return_p ()))"
    by (auto simp add: ki_local_start)
  have installed: "ri = Return True \<and> try_except
          (bind_p (local_start_chromadb_server w) (\<lambda>_. return_p ()))
          ((is_KeyboardInterrupt, \<lambda>e.
              logger_info (sym_stop @ '' ChromaDB server stopped by user'')) # hs) s2 = (r, s')"
  proof (cases ri)
    case (Raise e)
    with run i have "s' = s2" by (simp add: local_main_def s1_def prog_defs)
    with quiet new srv show ?thesis by simp
  next
    case (Return b)
    show ?thesis
    proof (cases b)
      case False
      with run i Return have "s' = s2\<lparr>log := log s2 @ [(ERROR, sym_cross @ '' Failed to install ChromaDB'')]\<rparr>"
        by (simp add: local_main_def s1_def prog_defs)
      with quiet new srv show ?thesis by simp
    next
      case True
      with run i Return show ?thesis
        by (cases "try_except
          (bind_p (local_start_chromadb_server w) (\<lambda>_. return_p ()))
          ((is_KeyboardInterrupt, \<lambda>e.
              logger_info (sym_stop @ '' ChromaDB server stopped by user'')) # hs) s2";
            cases "fst (try_except
          (bind_p (local_start_chromadb_server w) (\<lambda>_. return_p ()))
          ((is_KeyboardInterrupt, \<lambda>e.
              logger_info (sym_stop @ '' ChromaDB server stopped by user'')) # hs) s2)")
           (simp_all add: local_main_def s1_def hs_def bind_p_def logger_info_def return_p_def)
    qed
  qed
  then have t: "try_except
          (bind_p (local_start_chromadb_server w) (\<lambda>_. return_p ()))
          ((is_KeyboardInterrupt, \<lambda>e.
              logger_info (sym_stop @ '' ChromaDB server stopped by user'')) # hs) s2 = (r, s')"
    by simp
  have new2: "trace s' \<noteq> trace s2"
  proof
    assume "trace s' = trace s2"
    with quiet new srv show False by simp
  qed
  have "\<exists>s3. bind_p (local_start_chromadb_server w) (\<lambda>_. return_p ()) s2 = (Raise KeyboardInterrupt, s3)
            \<and> logger_info (sym_stop @ '' ChromaDB server stopped by user'') s3 = (r, s')"
  proof (rule try_interrupted [OF ki t _ _ new2 srv raised])
    show "\<And>s. trace (snd (logger_info (sym_stop @ '' ChromaDB server stopped by user'') s)) = trace s"
      by (simp add: logger_info_def)
    show "\<And>e s. trace (snd (handle_exn hs e s)) = trace s"
      by (simp add: hs_def prog_defs)
  qed
  then show ?thesis by (auto simp add: logger_info_def)
qed

text \<open>
  C2. In each of the three scripts that serve, when the serving call (the last call of
  the run) raises \<open>KeyboardInterrupt\<close>, \<open>main\<close> catches it, the stop message is the last
  thing printed (logged, in \<open>start-local-chromadb-server.py\<close>), and the process ends
  with status 0.
\<close>

theorem keyboard_interrupt_exits_zero:
  assumes "trace s' \<noteq> trace s"
      and "is_serving (last (trace s'))"
      and "raises w (butlast (trace s')) (last (trace s')) = Some KeyboardInterrupt"
  shows "(main w argv s = (r, s') \<longrightarrow>
            r = Return () \<and> exit_status r = 0
            \<and> last (stdout s') = [CHR 0x0A] @ sym_stop @ '' Server stopped by user'')
       \<and> (simple_main w argv s = (r, s') \<longrightarrow>
            r = Return () \<and> exit_status r = 0
            \<and> last (stdout s') = [CHR 0x0A] @ sym_stop @ '' Server stopped'')
       \<and> (local_main w s = (r, s') \<longrightarrow>
            r = Return () \<and> exit_status r = 0
            \<and> last (log s') = (INFO, sym_stop @ '' ChromaDB server stopped by user''))"
proof (intro conjI impI)
  assume "main w argv s = (r, s')"
  from main_interrupted [OF this assms]
  show "r = Return ()" "exit_status r = 0"
    "last (stdout s') = [CHR 0x0A] @ sym_stop @ '' Server stopped by user''"
    by simp_all
next
  assume "simple_main w argv s = (r, s')"
  from simple_main_interrupted [OF this assms]
  show "r = Return ()" "exit_status r = 0"
    "last (stdout s') = [CHR 0x0A] @ sym_stop @ '' Server stopped''"
    by simp_all
next
  assume "local_main w s = (r, s')"
  from local_main_interrupted [OF this assms]
  show "r = Return ()" "exit_status r = 0"
    "last (log s') = (INFO, sym_stop @ '' ChromaDB server stopped by user'')"
    by simp_all
qed

theorem keyboard_interrupt_exits_zero_witness:
  "exit_status (fst (main world_run_server_interrupted [] (start_state Map.empty empty_tree []))) = 0
   \<and> last (stdout (snd (main world_run_server_interrupted [] (start_state Map.empty empty_tree []))))
       = [CHR 0x0A] @ sym_stop @ '' Server stopped by user''
   \<and> exit_status (fst (simple_main world_interrupted [] (start_state Map.empty empty_tree []))) = 0
   \<and> last (stdout (snd (simple_main world_interrupted [] (start_state Map.empty empty_tree []))))
       = [CHR 0x0A] @ sym_stop @ '' Server stopped''
   \<and> exit_status (fst (local_main world_interrupted (start_state Map.empty home_tree []))) = 0
   \<and> last (log (snd (local_main world_interrupted (start_state Map.empty home_tree []))))
       = (INFO, sym_stop @ '' ChromaDB server stopped by user'')"
proof -
  have t1: "trace (snd (main world_run_server_interrupted [] (start_state Map.empty empty_tree []))) =
      [Import ''chromadb'', Import ''chromadb.config'', Run_server ''0.0.0.0'' 8000 []]"
    by (simp add: script_defs world_defs prog_defs char_defs)
  have t2: "trace (snd (simple_main world_interrupted [] (start_state Map.empty empty_tree []))) =
      simple_calls ''0.0.0.0'' 8000 None"
    by (simp add: script_defs world_defs prog_defs char_defs simple_calls_def routes_def)
  have t3: "trace (snd (local_main world_interrupted (start_state Map.empty home_tree []))) =
      [Import ''chromadb'', Import ''chromadb'', Import ''chromadb.config'', Import ''uvicorn'',
       Settings_init (Settings ''duckdb+parquet'' ''/home/user/.forest-data/.chromadb''
         ''localhost'' 8000 False),
       Client_init (Some (Settings ''duckdb+parquet'' ''/home/user/.forest-data/.chromadb''
         ''localhost'' 8000 False)),
       Import ''chromadb.server.fastapi'',
       Uvicorn_run Chromadb_app ''0.0.0.0'' 8000 ''info'']"
    by (simp add: script_defs world_defs prog_defs char_defs)
  have s: "trace (start_state Map.empty empty_tree []) = []"
      "trace (start_state Map.empty home_tree []) = []"
    by (simp_all add: start_state_def)
  have k: "\<And>h c. is_serving c \<Longrightarrow> raises world_run_server_interrupted h c = Some KeyboardInterrupt"
      "\<And>h c. is_serving c \<Longrightarrow> raises world_interrupted h c = Some KeyboardInterrupt"
    by (simp_all add: world_defs)
  from keyboard_interrupt_exits_zero
    [of "snd (main world_run_server_interrupted [] (start_state Map.empty empty_tree []))"
        "start_state Map.empty empty_tree []" world_run_server_interrupted "[]"
        "fst (main world_run_server_interrupted [] (start_state Map.empty empty_tree []))"]
  have m: "exit_status (fst (main world_run_server_interrupted [] (start_state Map.empty empty_tree []))) = 0
   \<and> last (stdout (snd (main world_run_server_interrupted [] (start_state Map.empty empty_tree []))))
       = [CHR 0x0A] @ sym_stop @ '' Server stopped by user''"
    by (simp add: t1 s k)
  from keyboard_interrupt_exits_zero
    [of "snd (simple_main world_interrupted [] (start_state Map.empty empty_tree []))"
        "start_state Map.empty empty_tree []" world_interrupted "[]"
        "fst (simple_main world_interrupted [] (start_state Map.empty empty_tree []))"]
  have sm: "exit_status (fst (simple_main world_interrupted [] (start_state Map.empty empty_tree []))) = 0
   \<and> last (stdout (snd (simple_main world_interrupted [] (start_state Map.empty empty_tree []))))
       = [CHR 0x0A] @ sym_stop @ '' Server stopped''"
    by (simp add: t2 s k simple_calls_def routes_def)
  from keyboard_interrupt_exits_zero
    [of "snd (local_main world_interrupted (start_state Map.empty home_tree []))"
        "start_state Map.empty home_tree []" world_interrupted _
        "fst (local_main world_interrupted (start_state Map.empty home_tree []))"]
  have lm: "exit_status (fst (local_main world_interrupted (start_state Map.empty home_tree []))) = 0
   \<and> last (log (snd (local_main world_interrupted (start_state Map.empty home_tree []))))
       = (INFO, sym_stop @ '' ChromaDB server stopped by user'')"
    by (simp add: t3 s k)
  from m sm lm show ?thesis by simp
qed

section \<open>The diagnostic script\<close>

lemma seq_p_logger_info:
  "seq_p (map (\<lambda>a. logger_info (f a)) xs) s =
     (Return (), s\<lparr>log := log s @ map (\<lambda>a. (INFO, f a)) xs\<rparr>)"
  by (induction xs arbitrary: s) (simp_all add: prog_defs)

lemma list_module_contents_log:
  "list_module_contents w s =
     (Return (),
      s\<lparr>log := log s @
        (INFO, sym_package @ '' ChromaDB module contents:'')
          # map (\<lambda>attr. (INFO, ''   - '' @ attr)) (take 10 (attrs w))
          @ (if 10 < length (attrs w)
             then [(INFO, ''   ... and '' @ str_nat (length (attrs w) - 10) @ '' more'')]
             else [])\<rparr>)"
  by (simp add: list_module_contents_def seq_p_logger_info prog_defs)

lemma suffix_snoc_append: "suffix ys (xs @ ys)"
  by (simp add: suffix_def)

text \<open>
  C10. Once \<open>import chromadb\<close> has succeeded, \<open>test_chromadb\<close> returns \<open>True\<close> whether or
  not making the client or listing the collections raises an exception (the failure is
  logged), and the log ends with the listing: a header, the first ten public attributes
  of the module, and only a count of the rest.
\<close>

theorem test_chromadb_returns_True:
  assumes "import_error w [] ''chromadb'' = None"
      and "\<forall>h c e. raises w h c = Some e \<longrightarrow> is_Exception e"
      and "test_chromadb w (start_state env t wd) = (r, s')"
  shows "r = Return True
       \<and> suffix
           ((INFO, sym_package @ '' ChromaDB module contents:'')
              # map (\<lambda>attr. (INFO, ''   - '' @ attr)) (take 10 (attrs w))
              @ (if 10 < length (attrs w)
                 then [(INFO, ''   ... and '' @ str_nat (length (attrs w) - 10) @ '' more'')]
                 else []))
           (log s')
       \<and> (\<forall>e. raises w [Import ''chromadb'', Import ''chromadb.server.fastapi'', Import ''uvicorn'']
                  (Client_init None) = Some e \<longrightarrow>
              (ERROR, sym_cross @ '' Client creation failed: '' @ str_exn e) \<in> set (log s'))
       \<and> (\<forall>e. raises w [Import ''chromadb'', Import ''chromadb.server.fastapi'', Import ''uvicorn'']
                  (Client_init None) = None
              \<and> raises w [Import ''chromadb'', Import ''chromadb.server.fastapi'', Import ''uvicorn'',
                          Client_init None]
                  (Client_list_collections (Client None)) = Some e \<longrightarrow>
              (ERROR, sym_cross @ '' Client creation failed: '' @ str_exn e) \<in> set (log s'))"
  using assms
  by (auto simp add: test_chromadb_def list_module_contents_log start_state_def prog_defs
        suffix_def split: option.splits)

theorem test_chromadb_returns_True_witness:
  "fst (test_chromadb world_client_fails (start_state Map.empty empty_tree [])) = Return True
   \<and> (ERROR, sym_cross @ '' Client creation failed: unsupported configuration'')
        \<in> set (log (snd (test_chromadb world_client_fails (start_state Map.empty empty_tree []))))
   \<and> suffix
        [(INFO, sym_package @ '' ChromaDB module contents:''),
         (INFO, ''   - API''), (INFO, ''   - Client''), (INFO, ''   - Collection''),
         (INFO, ''   - Documents''), (INFO, ''   - EmbeddingFunction''),
         (INFO, ''   - Embeddings''), (INFO, ''   - GetResult''), (INFO, ''   - IDs''),
         (INFO, ''   - Include''), (INFO, ''   - Metadatas''),
         (INFO, ''   ... and 4 more'')]
        (log (snd (test_chromadb world_client_fails (start_state Map.empty empty_tree []))))"
proof -
  have i: "import_error world_client_fails [] ''chromadb'' = None"
    by (simp add: world_defs)
  have x: "\<forall>h c e. raises world_client_fails h c = Some e \<longrightarrow> is_Exception e"
    by (auto simp add: world_defs split: call.splits)
  have c: "raises world_client_fails
             [Import ''chromadb'', Import ''chromadb.server.fastapi'', Import ''uvicorn'']
             (Client_init None) = Some (OtherException ''unsupported configuration'')"
    by (simp add: world_defs)
  have a: "attrs world_client_fails =
      [''API'', ''Client'', ''Collection'', ''Documents'', ''EmbeddingFunction'', ''Embeddings'',
       ''GetResult'', ''IDs'', ''Include'', ''Metadatas'', ''QueryResult'', ''Settings'', ''Where'',
       ''config'']"
    by (simp add: attrs_def startswith_def world_defs)
  have n: "str_nat (Suc (Suc (Suc (Suc 0)))) = ''4''"
    by (simp add: str_nat.simps digit_char_def)
  from test_chromadb_returns_True [OF i x surjective_pairing, of Map.empty empty_tree "[]"] c
  show ?thesis by (simp add: a n)
qed

text \<open>
  C9. When the import of an optional companion module (the library's FastAPI server
  module, uvicorn) fails, \<open>test_chromadb\<close> logs that the module is not available and goes
  on to its next step; it never raises \<open>ImportError\<close>, and it returns \<open>False\<close> exactly
  when \<open>import chromadb\<close> itself fails.
\<close>

theorem companion_import_failure_is_reported:
  assumes "test_chromadb w (start_state env t wd) = (r, s')"
  shows "(r = Return False \<longleftrightarrow> import_error w [] ''chromadb'' \<noteq> None)
       \<and> (\<forall>m. r \<noteq> Raise (ImportError m))
       \<and> (import_error w [] ''chromadb'' = None \<longrightarrow>
            (\<forall>m. import_error w [Import ''chromadb''] ''chromadb.server.fastapi'' = Some m \<longrightarrow>
               (ERROR, sym_cross @ '' FastAPI server not available: '' @ m) \<in> set (log s')
               \<and> Import ''uvicorn'' \<in> set (trace s'))
          \<and> (\<forall>m. import_error w [Import ''chromadb'', Import ''chromadb.server.fastapi'']
                     ''uvicorn'' = Some m \<longrightarrow>
               (ERROR, sym_cross @ '' Uvicorn not available: '' @ m) \<in> set (log s')
               \<and> Client_init None \<in> set (trace s')))"
  using assms
  by (auto simp add: test_chromadb_def list_module_contents_log start_state_def prog_defs
        split: option.splits if_splits dest: ImportError_is_Exception)

theorem companion_import_failure_is_reported_witness:
  "fst (test_chromadb world_no_companions (start_state Map.empty empty_tree [])) = Return True
   \<and> (ERROR, sym_cross @ '' FastAPI server not available: No module named ''
          @ [CHR 0x27] @ ''chromadb.server.fastapi'' @ [CHR 0x27])
        \<in> set (log (snd (test_chromadb world_no_companions (start_state Map.empty empty_tree []))))
   \<and> (ERROR, sym_cross @ '' Uvicorn not available: No module named ''
          @ [CHR 0x27] @ ''uvicorn'' @ [CHR 0x27])
        \<in> set (log (snd (test_chromadb world_no_companions (start_state Map.empty empty_tree []))))
   \<and> Client_init None
        \<in> set (trace (snd (test_chromadb world_no_companions (start_state Map.empty empty_tree []))))"
proof -
  have i: "import_error world_no_companions [] ''chromadb'' = None"
      "import_error world_no_companions [Import ''chromadb''] ''chromadb.server.fastapi'' =
         Some (''No module named '' @ [CHR 0x27] @ ''chromadb.server.fastapi'' @ [CHR 0x27])"
      "import_error world_no_companions [Import ''chromadb'', Import ''chromadb.server.fastapi'']
         ''uvicorn'' = Some (''No module named '' @ [CHR 0x27] @ ''uvicorn'' @ [CHR 0x27])"
    by (simp_all add: world_defs)
  have r: "fst (test_chromadb world_no_companions (start_state Map.empty empty_tree [])) = Return True"
    by (simp add: test_chromadb_def list_module_contents_log start_state_def prog_defs world_defs)
  from companion_import_failure_is_reported [OF surjective_pairing, of world_no_companions
      Map.empty empty_tree "[]"] i r
  show ?thesis by simp
qed

section \<open>How the server is constructed\<close>




















section \<open>The simple server's application\<close>

lemma withinD:
  "within m L \<Longrightarrow> m s = (r, s') \<Longrightarrow> \<exists>new. trace s' = trace s @ new \<and> prefix new L"
  unfolding within_def by (metis snd_conv)

lemma follows_within:
  assumes "follows m L Q"
  shows "within m L"
  unfolding within_def
proof
  fix s
  obtain r s' where m: "m s = (r, s')" by (cases "m s")
  from followsD [OF assms m] m
  show "\<exists>new. trace (snd (m s)) = trace s @ new \<and> prefix new L" by auto
qed

lemma within_bind:
  assumes "follows m L1 Q" and "\<And>v. within (f v) L2" and "L = L1 @ L2"
  shows "within (bind_p m f) L"
  unfolding within_def
proof
  fix s
  obtain r1 s1 where m: "m s = (r1, s1)" by (cases "m s")
  from followsD [OF assms(1) m] obtain new1 where t1: "trace s1 = trace s @ new1"
      and p1: "prefix new1 L1" and q1: "\<forall>v. r1 = Return v \<longrightarrow> new1 = L1 \<and> Q v"
    by blast
  show "\<exists>new. trace (snd (bind_p m f s)) = trace s @ new \<and> prefix new L"
  proof (cases r1)
    case (Return v)
    obtain r2 s2 where f: "f v s1 = (r2, s2)" by (cases "f v s1")
    from withinD [OF assms(2) f] obtain new2 where t2: "trace s2 = trace s1 @ new2"
        and p2: "prefix new2 L2"
      by blast
    from q1 Return have l1: "new1 = L1" by blast
    have "trace s2 = trace s @ (L1 @ new2)" using t1 t2 l1 by simp
    moreover have "prefix (L1 @ new2) L" using p2 assms(3) by simp
    ultimately have "\<exists>new. trace s2 = trace s @ new \<and> prefix new L" by blast
    with m f Return show ?thesis by (simp add: bind_p_def)
  next
    case (Raise e)
    have "prefix new1 L" using p1 assms(3) by (simp add: prefix_prefix)
    with t1 have "\<exists>new. trace s1 = trace s @ new \<and> prefix new L" by blast
    with m Raise show ?thesis by (simp add: bind_p_def)
  qed
qed

lemma within_try_silent:
  assumes "within m L" and "\<And>e s. trace (snd (handle_exn hs e s)) = trace s"
  shows "within (try_except m hs) L"
  unfolding within_def
proof
  fix s
  obtain r1 s1 where m: "m s = (r1, s1)" by (cases "m s")
  from withinD [OF assms(1) m] obtain new1 where t1: "trace s1 = trace s @ new1"
      and p1: "prefix new1 L"
    by blast
  show "\<exists>new. trace (snd (try_except m hs s)) = trace s @ new \<and> prefix new L"
  proof (cases r1)
    case (Return v)
    with m t1 p1 show ?thesis by (auto simp add: try_except_def)
  next
    case (Raise e)
    from assms(2) [of e s1] t1 have "trace (snd (handle_exn hs e s1)) = trace s @ new1" by simp
    with p1 have "\<exists>new. trace (snd (handle_exn hs e s1)) = trace s @ new \<and> prefix new L" by blast
    with m Raise show ?thesis by (simp add: try_except_def)
  qed
qed

lemma follows_make_client:
  "follows (bind_p (make_client w dd) (\<lambda>client. return_p ())) [client_call dd] (\<lambda>v. True)"
proof -
  have c: "\<And>c cl. follows (bind_p (bind_p (call_p w c) (\<lambda>_. return_p cl)) (\<lambda>client. return_p ()))
             [c] (\<lambda>v. True)"
    by (rule follows_bind follows_call follows_return_unit refl | simp)+
  show ?thesis
  proof (cases dd)
    case None
    then show ?thesis by (simp add: c)
  next
    case (Some d)
    then show ?thesis by (cases "d = []") (simp_all add: c)
  qed
qed

lemma follows_simple_setup:
  "follows
     (seq_p
        [import_p w ''chromadb'',
         print_p (sym_rocket @ '' ChromaDB v'' @ chromadb_version w),
         when_truthy dd (\<lambda>d.
           seq_p
             [mkdir_p True (Path d),
              print_p (sym_folder @ '' Data directory: '' @ str_path (Path d)),
              setenv ''CHROMA_DB_IMPL'' ''duckdb+parquet'',
              setenv ''CHROMA_PERSIST_DIRECTORY'' (str_path (Path d))])])
     [Import ''chromadb''] (\<lambda>v. True)"
  by (rule follows_seq_Cons follows_rules follows_when_truthy refl | simp)+

lemma follows_simple_app:
  "follows
     (seq_p
        [import_p w ''fastapi'',
         import_p w ''fastapi.middleware.cors'',
         import_p w ''uvicorn'',
         call_p w (FastAPI_init ''ChromaDB Simple Server''),
         call_p w (Add_middleware [''*''] True [''*''] [''*'']),
         bind_p (make_client w dd) (\<lambda>client. return_p ()),
         call_p w (Route GET ''/api/v1/heartbeat'' Heartbeat),
         call_p w (Route GET ''/api/v1/collections'' List_collections),
         call_p w (Route POST ''/api/v1/collections'' Create_collection),
         call_p w (Route GET ''/api/v1/collections/{collection_name}'' Get_collection),
         print_p (sym_check @ '' Simple FastAPI server configured''),
         call_p w (Uvicorn_run Simple_server_app host port ''info'')])
     ([Import ''fastapi'', Import ''fastapi.middleware.cors'', Import ''uvicorn'',
       FastAPI_init ''ChromaDB Simple Server'', Add_middleware [''*''] True [''*''] [''*''],
       client_call dd] @ routes @ [Uvicorn_run Simple_server_app host port ''info''])
     (\<lambda>v. True)"
  unfolding routes_def
  by (rule follows_seq_Cons follows_rules follows_make_client refl | simp)+

lemma within_serve_simple_app:
  "within (serve_simple_app w host port dd)
     ([Import ''fastapi'', Import ''fastapi.middleware.cors'', Import ''uvicorn'',
       FastAPI_init ''ChromaDB Simple Server'', Add_middleware [''*''] True [''*''] [''*''],
       client_call dd] @ routes @ [Uvicorn_run Simple_server_app host port ''info''])"
  unfolding serve_simple_app_def
proof (rule within_bind [OF follows_print, where ?L2.0 =
     "[Import ''fastapi'', Import ''fastapi.middleware.cors'', Import ''uvicorn'',
       FastAPI_init ''ChromaDB Simple Server'', Add_middleware [''*''] True [''*''] [''*''],
       client_call dd] @ routes @ [Uvicorn_run Simple_server_app host port ''info'']"])
  fix v :: unit
  show "within
          (try_except
            (bind_p
              (seq_p
                [import_p w ''fastapi'', import_p w ''fastapi.middleware.cors'',
                 import_p w ''uvicorn'', call_p w (FastAPI_init ''ChromaDB Simple Server''),
                 call_p w (Add_middleware [''*''] True [''*''] [''*'']),
                 bind_p (make_client w dd) (\<lambda>client. return_p ()),
                 call_p w (Route GET ''/api/v1/heartbeat'' Heartbeat),
                 call_p w (Route GET ''/api/v1/collections'' List_collections),
                 call_p w (Route POST ''/api/v1/collections'' Create_collection),
                 call_p w (Route GET ''/api/v1/collections/{collection_name}'' Get_collection),
                 print_p (sym_check @ '' Simple FastAPI server configured''),
                 call_p w (Uvicorn_run Simple_server_app host port ''info'')])
              (\<lambda>_. return_p None))
            [(is_ImportError,
              \<lambda>e. bind_p
                    (seq_p
                      [print_p (sym_cross @ '' FastAPI or uvicorn not available''),
                       print_p (sym_bulb @ '' Install with: pip install fastapi uvicorn'')])
                    (\<lambda>_. return_p (Some False)))])
          ([Import ''fastapi'', Import ''fastapi.middleware.cors'', Import ''uvicorn'',
            FastAPI_init ''ChromaDB Simple Server'', Add_middleware [''*''] True [''*''] [''*''],
            client_call dd] @ routes @ [Uvicorn_run Simple_server_app host port ''info''])"
  proof (rule within_try_silent)
    show "within
          (bind_p
              (seq_p
                [import_p w ''fastapi'', import_p w ''fastapi.middleware.cors'',
                 import_p w ''uvicorn'', call_p w (FastAPI_init ''ChromaDB Simple Server''),
                 call_p w (Add_middleware [''*''] True [''*''] [''*'']),
                 bind_p (make_client w dd) (\<lambda>client. return_p ()),
                 call_p w (Route GET ''/api/v1/heartbeat'' Heartbeat),
                 call_p w (Route GET ''/api/v1/collections'' List_collections),
                 call_p w (Route POST ''/api/v1/collections'' Create_collection),
                 call_p w (Route GET ''/api/v1/collections/{collection_name}'' Get_collection),
                 print_p (sym_check @ '' Simple FastAPI server configured''),
                 call_p w (Uvicorn_run Simple_server_app host port ''info'')])
              (\<lambda>_. return_p None))
          ([Import ''fastapi'', Import ''fastapi.middleware.cors'', Import ''uvicorn'',
            FastAPI_init ''ChromaDB Simple Server'', Add_middleware [''*''] True [''*''] [''*''],
            client_call dd] @ routes @ [Uvicorn_run Simple_server_app host port ''info''])"
      by (rule within_bind [OF follows_simple_app, where ?L2.0 = "[]"])
         (simp_all add: follows_within [OF follows_return])
  qed (simp add: prog_defs)
qed simp

lemma within_start_simple_server:
  "within (start_simple_server w host port dd) (simple_calls host port dd)"
  unfolding start_simple_server_def simple_calls_def
  by (rule within_try_silent, rule within_bind [OF follows_simple_setup],
      rule within_serve_simple_app)
     (simp_all add: prog_defs)

lemma prefix_reaches_last:
  assumes "prefix new (xs @ [u])" and "u \<in> set new" and "u \<notin> set xs"
  shows "new = xs @ [u]"
proof -
  from assms(1) have "new = xs @ [u] \<or> prefix new xs" by simp
  then show ?thesis
  proof
    assume "prefix new xs"
    then have "set new \<subseteq> set xs" by (rule set_mono_prefix)
    with assms(2, 3) show ?thesis by blast
  qed
qed

lemma simple_calls_routes:
  "filter is_route (simple_calls host port dd) = routes"
  by (cases dd) (simp_all add: simple_calls_def routes_def)

lemma simple_calls_last:
  "simple_calls host port dd =
     ([Import ''chromadb'', Import ''fastapi'', Import ''fastapi.middleware.cors'', Import ''uvicorn'',
       FastAPI_init ''ChromaDB Simple Server'', Add_middleware [''*''] True [''*''] [''*''],
       client_call dd] @ routes) @ [Uvicorn_run Simple_server_app host port ''info'']"
  "Uvicorn_run Simple_server_app host port ''info'' \<notin>
     set ([Import ''chromadb'', Import ''fastapi'', Import ''fastapi.middleware.cors'', Import ''uvicorn'',
       FastAPI_init ''ChromaDB Simple Server'', Add_middleware [''*''] True [''*''] [''*''],
       client_call dd] @ routes)"
  by (cases dd; simp add: simple_calls_def routes_def)+

text \<open>
  C8, as amended. \<open>start_simple_server\<close> registers exactly four routes, in order (GET
  heartbeat, GET collections, POST collections, GET collection by name): every run
  registers a prefix of them, and all four once \<open>uvicorn.run\<close> is called. Three of them
  (list, create, get) make exactly one call of the library's client, with the request's
  values passed on as they are; an exception of that call is the route's exception, and
  otherwise the answer holds the name and id the client returned. The heartbeat route
  calls nothing: it answers with the clock.
\<close>

theorem simple_server_routes:
  "(start_simple_server w host port data_dir s = (r, s') \<longrightarrow>
      (\<exists>new. trace s' = trace s @ new
         \<and> prefix new (simple_calls host port data_dir)
         \<and> prefix (filter is_route new) routes
         \<and> (Uvicorn_run Simple_server_app host port ''info'' \<in> set new \<longrightarrow>
              filter is_route new = routes)))
   \<and> route_function w client Heartbeat request collection_name s =
       (Return (JDict [(''nanosecond heartbeat'', JInt (time_ns w (trace s)))]), s)
   \<and> trace (snd (route_function w client List_collections request collection_name s)) =
       trace s @ [Client_list_collections client]
   \<and> fst (route_function w client List_collections request collection_name s) =
       (case raises w (trace s) (Client_list_collections client) of
          Some e \<Rightarrow> Raise e
        | None \<Rightarrow>
            Return (JList (map (\<lambda>c. JDict [(''name'', JStr (c_name c)), (''id'', JStr (c_id c))])
              (collections_listed w (trace s)))))
   \<and> trace (snd (route_function w client Create_collection request collection_name s)) =
       trace s @ [Client_create_collection client (dict_get request ''name'' JNull)
                    (dict_get request ''metadata'' (JDict []))]
   \<and> fst (route_function w client Create_collection request collection_name s) =
       (case raises w (trace s)
               (Client_create_collection client (dict_get request ''name'' JNull)
                  (dict_get request ''metadata'' (JDict []))) of
          Some e \<Rightarrow> Raise e
        | None \<Rightarrow>
            Return (JDict [(''name'', JStr (c_name (collection_returned w (trace s)))),
                           (''id'', JStr (c_id (collection_returned w (trace s))))]))
   \<and> trace (snd (route_function w client Get_collection request collection_name s)) =
       trace s @ [Client_get_collection client collection_name]
   \<and> fst (route_function w client Get_collection request collection_name s) =
       (case raises w (trace s) (Client_get_collection client collection_name) of
          Some e \<Rightarrow> Raise e
        | None \<Rightarrow>
            Return (JDict [(''name'', JStr (c_name (collection_returned w (trace s)))),
                           (''id'', JStr (c_id (collection_returned w (trace s))))]))"
proof (intro conjI impI)
  assume run: "start_simple_server w host port data_dir s = (r, s')"
  from withinD [OF within_start_simple_server run] obtain new
    where t: "trace s' = trace s @ new" and p: "prefix new (simple_calls host port data_dir)"
    by blast
  from filter_mono_prefix [OF p, of is_route]
  have pr: "prefix (filter is_route new) routes" by (simp add: simple_calls_routes)
  have "Uvicorn_run Simple_server_app host port ''info'' \<in> set new \<longrightarrow>
          filter is_route new = routes"
  proof
    assume u: "Uvicorn_run Simple_server_app host port ''info'' \<in> set new"
    from p have "prefix new
       (([Import ''chromadb'', Import ''fastapi'', Import ''fastapi.middleware.cors'', Import ''uvicorn'',
       FastAPI_init ''ChromaDB Simple Server'', Add_middleware [''*''] True [''*''] [''*''],
       client_call data_dir] @ routes) @ [Uvicorn_run Simple_server_app host port ''info''])"
      by (simp only: simple_calls_last(1) [symmetric])
    from prefix_reaches_last [OF this u simple_calls_last(2)]
    have "new = simple_calls host port data_dir" by (simp only: simple_calls_last(1) [symmetric])
    then show "filter is_route new = routes" by (simp add: simple_calls_routes)
  qed
  with t p pr
  show "\<exists>new. trace s' = trace s @ new
         \<and> prefix new (simple_calls host port data_dir)
         \<and> prefix (filter is_route new) routes
         \<and> (Uvicorn_run Simple_server_app host port ''info'' \<in> set new \<longrightarrow>
              filter is_route new = routes)"
    by blast
qed (simp_all add: heartbeat_def list_collections_def create_collection_def get_collection_def
       prog_defs split: option.splits)

theorem simple_server_routes_witness:
  "filter is_route
     (trace (snd (start_simple_server world_ok ''0.0.0.0'' 8000 None
        (start_state Map.empty empty_tree [])))) = routes
   \<and> fst (route_function world_ok (Client None) Get_collection [] ''docs''
        (start_state Map.empty empty_tree [])) =
       Return (JDict [(''name'', JStr ''docs''), (''id'', JStr ''c0ffee'')])"
proof -
  have t: "trace (snd (start_simple_server world_ok ''0.0.0.0'' 8000 None
        (start_state Map.empty empty_tree []))) = simple_calls ''0.0.0.0'' 8000 None"
    by (simp add: script_defs world_defs prog_defs char_defs simple_calls_def routes_def)
  have u: "Uvicorn_run Simple_server_app ''0.0.0.0'' 8000 ''info''
             \<in> set (simple_calls ''0.0.0.0'' 8000 None)"
    by (simp add: simple_calls_def)
  have w: "raises world_ok [] (Client_get_collection (Client None) ''docs'') = None"
      "collection_returned world_ok [] = \<lparr>c_name = ''docs'', c_id = ''c0ffee''\<rparr>"
    by (simp_all add: world_defs)
  note inst = simple_server_routes [of world_ok "''0.0.0.0''" 8000 None
      "start_state Map.empty empty_tree []"
      "fst (start_simple_server world_ok ''0.0.0.0'' 8000 None (start_state Map.empty empty_tree []))"
      "snd (start_simple_server world_ok ''0.0.0.0'' 8000 None (start_state Map.empty empty_tree []))"
      "Client None" "[]" "''docs''"]
  have s0: "trace (start_state Map.empty empty_tree []) = []"
    by (simp add: start_state_def)
  from inst have "\<exists>new.
      trace (snd (start_simple_server world_ok ''0.0.0.0'' 8000 None
        (start_state Map.empty empty_tree []))) = trace (start_state Map.empty empty_tree []) @ new
      \<and> prefix new (simple_calls ''0.0.0.0'' 8000 None)
      \<and> prefix (filter is_route new) routes
      \<and> (Uvicorn_run Simple_server_app ''0.0.0.0'' 8000 ''info'' \<in> set new \<longrightarrow>
              filter is_route new = routes)"
    by simp
  then obtain new where
      n: "trace (snd (start_simple_server world_ok ''0.0.0.0'' 8000 None
        (start_state Map.empty empty_tree []))) = trace (start_state Map.empty empty_tree []) @ new"
      and f: "Uvicorn_run Simple_server_app ''0.0.0.0'' 8000 ''info'' \<in> set new \<longrightarrow>
                filter is_route new = routes"
    by blast
  from n t s0 have "new = simple_calls ''0.0.0.0'' 8000 None" by simp
  with f u have "filter is_route (simple_calls ''0.0.0.0'' 8000 None) = routes" by simp
  moreover from inst have "fst (route_function world_ok (Client None) Get_collection [] ''docs''
        (start_state Map.empty empty_tree [])) =
       (case raises world_ok (trace (start_state Map.empty empty_tree []))
               (Client_get_collection (Client None) ''docs'') of
          Some e \<Rightarrow> Raise e
        | None \<Rightarrow>
            Return (JDict [(''name'', JStr (c_name (collection_returned world_ok
                              (trace (start_state Map.empty empty_tree []))))),
                           (''id'', JStr (c_id (collection_returned world_ok
                              (trace (start_state Map.empty empty_tree [])))))]))"
    by blast
  ultimately show ?thesis by (simp add: t s0 w)
qed

text \<open>
  C8 as stated fails for the heartbeat route: it returns the clock's value and makes no
  call of the library's client (no call at all).
\<close>

theorem heartbeat_calls_no_client:
  "filter is_client_call
     (trace (snd (route_function world_ok (Client None) Heartbeat [] []
        (start_state Map.empty empty_tree [])))) = []
   \<and> fst (route_function world_ok (Client None) Heartbeat [] []
        (start_state Map.empty empty_tree [])) =
       Return (JDict [(''nanosecond heartbeat'', JInt 1700000000000000000)])"
  by (simp add: heartbeat_def start_state_def world_defs)

end
